theory Spec2Isabelle
  imports Main "HOL-Library.Char_ord" "HOL-Library.List_Lexorder" "HOL-Library.Multiset"
begin

section \<open>JavaScript values as the script sees them\<close>

text \<open>
  The script works on what \<^verbatim>\<open>JSON.parse\<close> returns, so a value is one of the JSON shapes,
  or \<^verbatim>\<open>undefined\<close> (the result of reading a property that is not there). A number
  of the input is a mathematical integer: the value that an integer literal below \<open>2^53\<close>
  denotes; fractions and larger literals have no value here. A string is a list of code
  units below 256, compared unit by unit; code units from 256 on have no value here. An
  object is the association list of its own properties.
\<close>

datatype jsval =
    JUndefined
  | JNull
  | JBool bool
  | JNum int
  | JStr string
  | JArr "jsval list"
  | JObj "(string \<times> jsval) list"

datatype js_error =
    SyntaxError
  | TypeError
  | Error string

text \<open>Truthiness, as \<^verbatim>\<open>||\<close>, \<^verbatim>\<open>!\<close> and \<^verbatim>\<open>? :\<close> test it.\<close>

fun truthy :: "jsval \<Rightarrow> bool" where
  "truthy JUndefined = False"
| "truthy JNull = False"
| "truthy (JBool b) = b"
| "truthy (JNum n) = (n \<noteq> 0)"
| "truthy (JStr s) = (s \<noteq> [])"
| "truthy (JArr _) = True"
| "truthy (JObj _) = True"

text \<open>\<^verbatim>\<open>a || b\<close>\<close>

definition js_or :: "jsval \<Rightarrow> jsval \<Rightarrow> jsval" where
  "js_or a b = (if truthy a then a else b)"

fun is_string :: "jsval \<Rightarrow> bool" where
  "is_string (JStr _) = True"
| "is_string _ = False"


fun is_array :: "jsval \<Rightarrow> bool" where
  "is_array (JArr _) = True"
| "is_array _ = False"

text \<open>Primitive values are compared by value, arrays and objects by identity.\<close>

fun is_primitive :: "jsval \<Rightarrow> bool" where
  "is_primitive (JArr _) = False"
| "is_primitive (JObj _) = False"
| "is_primitive _ = True"

subsection \<open>\<^verbatim>\<open>String(v)\<close>\<close>

definition digit_char :: "nat \<Rightarrow> char" where
  "digit_char d = char_of (48 + d)"

fun string_of_nat :: "nat \<Rightarrow> string" where
  "string_of_nat n =
     (if n < 10 then [digit_char n]
      else string_of_nat (n div 10) @ [digit_char (n mod 10)])"

declare string_of_nat.simps [simp del]

definition string_of_int :: "int \<Rightarrow> string" where
  "string_of_int i =
     (if i < 0 then CHR ''-'' # string_of_nat (nat (- i)) else string_of_nat (nat i))"

text \<open>
  \<^verbatim>\<open>String\<close> of an array is \<^verbatim>\<open>join(',')\<close>, where \<^verbatim>\<open>null\<close> and \<^verbatim>\<open>undefined\<close> elements
  give the empty string; of an object it is \<^verbatim>\<open>[object Object]\<close>.
\<close>

fun to_String :: "jsval \<Rightarrow> string" and join_String :: "jsval list \<Rightarrow> string" where
  "to_String JUndefined = ''undefined''"
| "to_String JNull = ''null''"
| "to_String (JBool b) = (if b then ''true'' else ''false'')"
| "to_String (JNum n) = string_of_int n"
| "to_String (JStr s) = s"
| "to_String (JArr xs) = join_String xs"
| "to_String (JObj _) = ''[object Object]''"
| "join_String [] = []"
| "join_String [x] = (if x = JNull \<or> x = JUndefined then [] else to_String x)"
| "join_String (x # y # ys) =
     (if x = JNull \<or> x = JUndefined then [] else to_String x) @ '','' @ join_String (y # ys)"

subsection \<open>Property access\<close>

text \<open>
  \<^verbatim>\<open>raw.name\<close> for one of the eight names the script reads. On \<^verbatim>\<open>null\<close> and
  \<^verbatim>\<open>undefined\<close> the access throws a TypeError (see \<open>Course\<close>); on a number, boolean,
  string or array none of the eight names is a property, so the result is \<^verbatim>\<open>undefined\<close>.
\<close>

fun get_prop :: "jsval \<Rightarrow> string \<Rightarrow> jsval" where
  "get_prop (JObj kvs) k = (case map_of kvs k of None \<Rightarrow> JUndefined | Some v \<Rightarrow> v)"
| "get_prop _ k = JUndefined"

section \<open>The Course class\<close>

record course =
  id' :: jsval
  title :: jsval
  department :: jsval
  level :: jsval
  credits :: jsval
  instructor :: jsval
  description :: jsval
  semester :: jsval

text \<open>\<^verbatim>\<open>new Course(raw)\<close>: the constructor, lines 6 to 17.\<close>

definition Course :: "jsval \<Rightarrow> js_error + course" where
  "Course raw =
     (if raw = JNull \<or> raw = JUndefined then Inl TypeError
      else Inr \<lparr>
        id' = js_or (get_prop raw ''id'') (JStr ''Unknown ID''),
        title = js_or (get_prop raw ''title'') (JStr ''Untitled course''),
        department = js_or (get_prop raw ''department'') (JStr ''Unknown department''),
        level = js_or (get_prop raw ''level'') JNull,
        credits = js_or (get_prop raw ''credits'') JNull,
        instructor = js_or (get_prop raw ''instructor'') JNull,
        description = js_or (get_prop raw ''description'') (JStr ''No description available.''),
        semester = js_or (get_prop raw ''semester'') (JStr ''Unknown semester'') \<rparr>)"

definition getInstructorLabel :: "course \<Rightarrow> jsval" where
  "getInstructorLabel c = (if truthy (instructor c) then instructor c else JStr ''TBA'')"

section \<open>Host functions the script calls\<close>

subsection \<open>The numbers the script computes\<close>

text \<open>
  The script's arithmetic is that of doubles. \<^verbatim>\<open>parseInt\<close> gives no fraction, so every
  number it computes with is NaN, an infinity, or an integer that a double holds exactly.
  \<open>to_double\<close> is the double nearest to a mathematical integer: unchanged below \<open>2^53\<close>,
  beyond that rounded to 53 significant bits with ties to the even one, and infinite from
  \<open>2^1024 - 2^970\<close> on. Signed zeros are not told apart: the script never divides.
\<close>

datatype jsnum = NaN | Fin int | PosInf | NegInf

fun bit_length :: "nat \<Rightarrow> nat" where
  "bit_length n = (if n = 0 then 0 else Suc (bit_length (n div 2)))"

declare bit_length.simps [simp del]

definition round_nat :: "nat \<Rightarrow> nat" where
  "round_nat n =
     (if n < 2 ^ 53 then n
      else
        (let e = bit_length n - 53;
             q = n div 2 ^ e;
             r = n mod 2 ^ e
         in if 2 ^ e < 2 * r \<or> (2 * r = 2 ^ e \<and> odd q) then (q + 1) * 2 ^ e else q * 2 ^ e))"

definition to_double :: "int \<Rightarrow> jsnum" where
  "to_double i =
     (let m = round_nat (nat \<bar>i\<bar>)
      in if 2 ^ 1024 \<le> m then (if i < 0 then NegInf else PosInf)
         else Fin (if i < 0 then - int m else int m))"

text \<open>\<^verbatim>\<open>-x\<close>, \<^verbatim>\<open>x + y\<close>, \<^verbatim>\<open>x - y\<close> and \<^verbatim>\<open>x * y\<close>: the exact result, rounded.\<close>

fun js_neg :: "jsnum \<Rightarrow> jsnum" where
  "js_neg NaN = NaN"
| "js_neg (Fin a) = Fin (- a)"
| "js_neg PosInf = NegInf"
| "js_neg NegInf = PosInf"

fun js_add :: "jsnum \<Rightarrow> jsnum \<Rightarrow> jsnum" where
  "js_add NaN y = NaN"
| "js_add x NaN = NaN"
| "js_add (Fin a) (Fin b) = to_double (a + b)"
| "js_add PosInf NegInf = NaN"
| "js_add NegInf PosInf = NaN"
| "js_add PosInf y = PosInf"
| "js_add x PosInf = PosInf"
| "js_add NegInf y = NegInf"
| "js_add x NegInf = NegInf"

definition js_sub :: "jsnum \<Rightarrow> jsnum \<Rightarrow> jsnum" where
  "js_sub x y = js_add x (js_neg y)"

fun js_mul :: "jsnum \<Rightarrow> jsnum \<Rightarrow> jsnum" where
  "js_mul NaN y = NaN"
| "js_mul x NaN = NaN"
| "js_mul (Fin a) (Fin b) = to_double (a * b)"
| "js_mul (Fin a) PosInf = (if a = 0 then NaN else if 0 < a then PosInf else NegInf)"
| "js_mul (Fin a) NegInf = (if a = 0 then NaN else if 0 < a then NegInf else PosInf)"
| "js_mul PosInf (Fin b) = (if b = 0 then NaN else if 0 < b then PosInf else NegInf)"
| "js_mul NegInf (Fin b) = (if b = 0 then NaN else if 0 < b then NegInf else PosInf)"
| "js_mul PosInf PosInf = PosInf"
| "js_mul NegInf NegInf = PosInf"
| "js_mul PosInf NegInf = NegInf"
| "js_mul NegInf PosInf = NegInf"

text \<open>\<^verbatim>\<open>x || 0\<close> on a number: NaN and 0 are falsy.\<close>

definition or_zero :: "jsnum \<Rightarrow> jsnum" where
  "or_zero x = (if x = NaN \<or> x = Fin 0 then Fin 0 else x)"

text \<open>
  What the sort reads from the number a comparator returns: NaN counts as 0, and beyond
  that only the sign is looked at.
\<close>

fun compare_value :: "jsnum \<Rightarrow> int" where
  "compare_value NaN = 0"
| "compare_value (Fin a) = a"
| "compare_value PosInf = 1"
| "compare_value NegInf = - 1"

subsection \<open>What depends on the host\<close>

text \<open>
  The comparison behind \<^verbatim>\<open>localeCompare\<close> depends on the browser's locale, and the
  conversion of a string to a number (\<^verbatim>\<open>ToNumber\<close>, used by \<^verbatim>\<open>a - b\<close> on strings) reads
  numerals with fractions and exponents, which have no value here. Both are parameters.
\<close>

record host =
  localeCompare :: "string \<Rightarrow> string \<Rightarrow> int"
  stringToNumber :: "string \<Rightarrow> jsnum"

subsection \<open>\<^verbatim>\<open>split(' ')\<close> and \<^verbatim>\<open>parseInt(s, 10)\<close>\<close>

fun split_space :: "string \<Rightarrow> string list" where
  "split_space [] = [[]]"
| "split_space (c # cs) =
     (if c = CHR '' '' then [] # split_space cs
      else (case split_space cs of
              [] \<Rightarrow> [[c]]
            | p # ps \<Rightarrow> (c # p) # ps))"

text \<open>\<^verbatim>\<open>parts[i]\<close>: \<^verbatim>\<open>undefined\<close> beyond the end.\<close>

definition index_parts :: "string list \<Rightarrow> nat \<Rightarrow> jsval" where
  "index_parts parts i = (if i < length parts then JStr (parts ! i) else JUndefined)"

definition is_white :: "char \<Rightarrow> bool" where
  "is_white c = (c \<in> set [CHR 0x09, CHR 0x0A, CHR 0x0B, CHR 0x0C, CHR 0x0D, CHR 0x20, CHR 0xA0])"

definition is_digit :: "char \<Rightarrow> bool" where
  "is_digit c = (48 \<le> (of_char c :: nat) \<and> (of_char c :: nat) \<le> 57)"

definition digit_val :: "char \<Rightarrow> nat" where
  "digit_val c = of_char c - 48"

definition digits_val :: "string \<Rightarrow> nat" where
  "digits_val ds = foldl (\<lambda>a c. 10 * a + digit_val c) 0 ds"

text \<open>
  \<^verbatim>\<open>parseInt(v, 10)\<close>: the argument is converted to a string, leading white space is
  skipped, a sign is read, then the longest run of decimal digits; no digit gives NaN, and
  the digits give the double nearest to their value. \<open>is_white\<close> holds every white space
  and line terminator of the language below 256: tab, line feed, vertical tab, form feed,
  carriage return, space and no-break space. (Past the twentieth significant digit the
  language lets an engine read the digits as zeros; the value here is the one V8 and
  SpiderMonkey return, rounded from all the digits.)
\<close>

definition parseInt :: "jsval \<Rightarrow> jsnum" where
  "parseInt v =
     (let t = dropWhile is_white (to_String v);
          neg = (t \<noteq> [] \<and> hd t = CHR ''-'');
          u = (if t \<noteq> [] \<and> (hd t = CHR ''-'' \<or> hd t = CHR ''+'') then tl t else t);
          ds = takeWhile is_digit u
      in if ds = [] then NaN
         else to_double (if neg then - int (digits_val ds) else int (digits_val ds)))"

subsection \<open>\<^verbatim>\<open>Array.prototype.sort\<close>\<close>

text \<open>
  The sort is stable, and for a consistent comparator every engine returns the same array.
  It is modelled by insertion from the left: each element is placed before the first
  element of the sorted prefix that it compares below. A comparator that throws ends the
  sort with that error; a comparator is not called on fewer than two elements.
\<close>

fun insert_by :: "('a \<Rightarrow> 'a \<Rightarrow> js_error + int) \<Rightarrow> 'a \<Rightarrow> 'a list \<Rightarrow> js_error + 'a list" where
  "insert_by cmp x [] = Inr [x]"
| "insert_by cmp x (y # ys) =
     (case cmp x y of
        Inl e \<Rightarrow> Inl e
      | Inr d \<Rightarrow>
          if d < 0 then Inr (x # y # ys)
          else (case insert_by cmp x ys of
                  Inl e \<Rightarrow> Inl e
                | Inr r \<Rightarrow> Inr (y # r)))"

fun sort_from :: "('a \<Rightarrow> 'a \<Rightarrow> js_error + int) \<Rightarrow> 'a list \<Rightarrow> 'a list \<Rightarrow> js_error + 'a list" where
  "sort_from cmp acc [] = Inr acc"
| "sort_from cmp acc (x # xs) =
     (case insert_by cmp x acc of
        Inl e \<Rightarrow> Inl e
      | Inr acc' \<Rightarrow> sort_from cmp acc' xs)"

definition js_sort :: "('a \<Rightarrow> 'a \<Rightarrow> js_error + int) \<Rightarrow> 'a list \<Rightarrow> js_error + 'a list" where
  "js_sort cmp xs = sort_from cmp [] xs"

text \<open>The same sort for a comparator that cannot throw.\<close>

fun insert_pure :: "('a \<Rightarrow> 'a \<Rightarrow> int) \<Rightarrow> 'a \<Rightarrow> 'a list \<Rightarrow> 'a list" where
  "insert_pure cmp x [] = [x]"
| "insert_pure cmp x (y # ys) =
     (if cmp x y < 0 then x # y # ys else y # insert_pure cmp x ys)"

definition js_sort_pure :: "('a \<Rightarrow> 'a \<Rightarrow> int) \<Rightarrow> 'a list \<Rightarrow> 'a list" where
  "js_sort_pure cmp xs = foldl (\<lambda>acc x. insert_pure cmp x acc) [] xs"

text \<open>
  \<^verbatim>\<open>sort()\<close> with no comparator: \<^verbatim>\<open>undefined\<close> goes last, everything else is compared by
  its string.
\<close>

definition default_compare :: "jsval \<Rightarrow> jsval \<Rightarrow> int" where
  "default_compare a b =
     (if a = JUndefined \<and> b = JUndefined then 0
      else if a = JUndefined then 1
      else if b = JUndefined then - 1
      else if to_String a < to_String b then - 1
      else if to_String b < to_String a then 1
      else 0)"

text \<open>\<^verbatim>\<open>ToNumber(v)\<close>; an array or object is converted through its string.\<close>

fun to_Number :: "host \<Rightarrow> jsval \<Rightarrow> jsnum" where
  "to_Number h JUndefined = NaN"
| "to_Number h JNull = Fin 0"
| "to_Number h (JBool b) = Fin (if b then 1 else 0)"
| "to_Number h (JNum n) = Fin n"
| "to_Number h (JStr s) = stringToNumber h s"
| "to_Number h (JArr xs) = stringToNumber h (to_String (JArr xs))"
| "to_Number h (JObj kvs) = stringToNumber h (to_String (JObj kvs))"

text \<open>\<^verbatim>\<open>(a, b) => a - b\<close>, as the sort reads it.\<close>

definition numeric_compare :: "host \<Rightarrow> jsval \<Rightarrow> jsval \<Rightarrow> int" where
  "numeric_compare h a b = compare_value (js_sub (to_Number h a) (to_Number h b))"

subsection \<open>\<^verbatim>\<open>Set.prototype.add\<close>\<close>

text \<open>
  A set keeps insertion order. A primitive is added once; an array or object is a fresh
  object for every field of every parsed record, so it is never found in the set.
\<close>

definition set_add :: "jsval list \<Rightarrow> jsval \<Rightarrow> jsval list" where
  "set_add xs v = (if is_primitive v \<and> v \<in> set xs then xs else xs @ [v])"

section \<open>The page: catalog and document state\<close>

record select =
  sel_options :: "string list"
  sel_value :: string

record list_item =
  textContent :: string
  selected :: bool

record state =
  allCourses :: "course list"
  filteredCourses :: "course list"
  errorText :: string
  errorHidden :: bool
  departmentSelect :: select
  levelSelect :: select
  creditsSelect :: select
  instructorSelect :: select
  sortSelect :: string
  courseList :: "list_item list"
  courseDetails :: "course option"
  console :: "js_error list"

definition setError :: "string \<Rightarrow> state \<Rightarrow> state" where
  "setError message s =
     (if message = [] then s\<lparr>errorText := [], errorHidden := True\<rparr>
      else s\<lparr>errorText := message, errorHidden := False\<rparr>)"

text \<open>
  \<^verbatim>\<open>resetSelectOptions\<close> followed by the appended options: the first option,
  \<^verbatim>\<open>All\<close>, is the selected one of a rebuilt drop-down.
\<close>

definition resetSelectOptions :: "string \<Rightarrow> select" where
  "resetSelectOptions allLabel = \<lparr>sel_options = [''All''], sel_value = ''All''\<rparr>"

definition append_options :: "jsval list \<Rightarrow> select \<Rightarrow> select" where
  "append_options vs sel = sel\<lparr>sel_options := sel_options sel @ map to_String vs\<rparr>"

subsection \<open>populateFilterDropdowns\<close>

definition departments_set :: "course list \<Rightarrow> jsval list" where
  "departments_set cs = foldl (\<lambda>acc c. set_add acc (department c)) [] cs"

definition levels_set :: "course list \<Rightarrow> jsval list" where
  "levels_set cs =
     foldl (\<lambda>acc c. if level c \<noteq> JNull \<and> level c \<noteq> JUndefined then set_add acc (level c) else acc) [] cs"

definition credits_set :: "course list \<Rightarrow> jsval list" where
  "credits_set cs =
     foldl (\<lambda>acc c. if credits c \<noteq> JNull \<and> credits c \<noteq> JUndefined then set_add acc (credits c) else acc) [] cs"

definition instructors_set :: "course list \<Rightarrow> jsval list" where
  "instructors_set cs = foldl (\<lambda>acc c. set_add acc (getInstructorLabel c)) [] cs"

definition sortedDepartments :: "course list \<Rightarrow> jsval list" where
  "sortedDepartments cs = js_sort_pure default_compare (departments_set cs)"

definition sortedLevels :: "host \<Rightarrow> course list \<Rightarrow> jsval list" where
  "sortedLevels h cs = js_sort_pure (numeric_compare h) (levels_set cs)"

definition sortedCredits :: "host \<Rightarrow> course list \<Rightarrow> jsval list" where
  "sortedCredits h cs = js_sort_pure (numeric_compare h) (credits_set cs)"

definition sortedInstructors :: "course list \<Rightarrow> jsval list" where
  "sortedInstructors cs = js_sort_pure default_compare (instructors_set cs)"

definition populateFilterDropdowns :: "host \<Rightarrow> state \<Rightarrow> state" where
  "populateFilterDropdowns h s =
     s\<lparr>departmentSelect := append_options (sortedDepartments (allCourses s)) (resetSelectOptions ''All''),
       levelSelect := append_options (sortedLevels h (allCourses s)) (resetSelectOptions ''All''),
       creditsSelect := append_options (sortedCredits h (allCourses s)) (resetSelectOptions ''All''),
       instructorSelect := append_options (sortedInstructors (allCourses s)) (resetSelectOptions ''All'')\<rparr>"

subsection \<open>Rendering\<close>

definition renderCourseList :: "state \<Rightarrow> state" where
  "renderCourseList s =
     s\<lparr>courseList := map (\<lambda>c. \<lparr>textContent = to_String (id' c), selected = False\<rparr>) (filteredCourses s)\<rparr>"

definition markSelectedCourse :: "jsval \<Rightarrow> state \<Rightarrow> state" where
  "markSelectedCourse courseId s =
     s\<lparr>courseList := map (\<lambda>item. item\<lparr>selected := (JStr (textContent item) = courseId)\<rparr>) (courseList s)\<rparr>"

definition renderCourseDetails :: "course option \<Rightarrow> state \<Rightarrow> state" where
  "renderCourseDetails c s = s\<lparr>courseDetails := c\<rparr>"

text \<open>The click listener that \<^verbatim>\<open>renderCourseList\<close> attaches to the item of a course.\<close>

definition item_onclick :: "course \<Rightarrow> state \<Rightarrow> state" where
  "item_onclick c s = markSelectedCourse (id' c) (renderCourseDetails (Some c) s)"

subsection \<open>sortCourses\<close>

definition termOrder :: "jsval \<Rightarrow> int" where
  "termOrder term =
     (if term = JStr ''Winter'' then 1
      else if term = JStr ''Spring'' then 2
      else if term = JStr ''Summer'' then 3
      else if term = JStr ''Fall'' then 4
      else 0)"

text \<open>
  \<^verbatim>\<open>semesterToNumber\<close>: a falsy argument gives 0; \<^verbatim>\<open>split\<close> exists on strings only, so any
  other truthy argument throws. \<^verbatim>\<open>parseInt(...) || 0\<close> turns NaN into 0, and
  \<^verbatim>\<open>year * 10 + termOrder\<close> is computed in doubles.
\<close>

definition semesterToNumber :: "jsval \<Rightarrow> js_error + jsnum" where
  "semesterToNumber semString =
     (if \<not> truthy semString then Inr (Fin 0)
      else (case semString of
              JStr str \<Rightarrow>
                (let parts = split_space str;
                     term = index_parts parts 0;
                     year = or_zero (parseInt (index_parts parts 1))
                 in Inr (js_add (js_mul year (Fin 10)) (Fin (termOrder term))))
            | _ \<Rightarrow> Inl TypeError))"

text \<open>
  \<^verbatim>\<open>a.id.localeCompare(b.id)\<close>: the method exists on strings only; the argument is
  converted to a string.
\<close>

definition locale_compare :: "host \<Rightarrow> jsval \<Rightarrow> jsval \<Rightarrow> js_error + int" where
  "locale_compare h a b =
     (case a of
        JStr str \<Rightarrow> Inr (localeCompare h str (to_String b))
      | _ \<Rightarrow> Inl TypeError)"

text \<open>\<^verbatim>\<open>semesterToNumber(a.semester) - semesterToNumber(b.semester)\<close>, as the sort reads it.\<close>

definition semester_compare :: "jsval \<Rightarrow> jsval \<Rightarrow> js_error + int" where
  "semester_compare a b =
     (case semesterToNumber a of
        Inl e \<Rightarrow> Inl e
      | Inr x \<Rightarrow>
          (case semesterToNumber b of
             Inl e \<Rightarrow> Inl e
           | Inr y \<Rightarrow> Inr (compare_value (js_sub x y))))"

definition compare_courses :: "host \<Rightarrow> string \<Rightarrow> course \<Rightarrow> course \<Rightarrow> js_error + int" where
  "compare_courses h sortValue a b =
     (if sortValue = ''id-asc'' then locale_compare h (id' a) (id' b)
      else if sortValue = ''id-desc'' then locale_compare h (id' b) (id' a)
      else if sortValue = ''title-asc'' then locale_compare h (title a) (title b)
      else if sortValue = ''title-desc'' then locale_compare h (title b) (title a)
      else if sortValue = ''sem-earliest'' then semester_compare (semester a) (semester b)
      else if sortValue = ''sem-latest'' then semester_compare (semester b) (semester a)
      else Inr 0)"

definition sortCourses :: "host \<Rightarrow> course list \<Rightarrow> string \<Rightarrow> js_error + course list" where
  "sortCourses h coursesArray sortValue =
     (if sortValue = ''none'' then Inr coursesArray
      else js_sort (compare_courses h sortValue) coursesArray)"

subsection \<open>applyFiltersAndSort\<close>

text \<open>The callback of \<^verbatim>\<open>allCourses.filter\<close>, lines 223 to 238.\<close>

definition course_matches :: "string \<Rightarrow> string \<Rightarrow> string \<Rightarrow> string \<Rightarrow> course \<Rightarrow> bool" where
  "course_matches deptValue levelValue creditsValue instructorValue c =
     (let matchesDept = (deptValue = ''All'' \<or> department c = JStr deptValue);
          matchesLevel = (levelValue = ''All'' \<or> to_String (level c) = levelValue);
          matchesCredits = (creditsValue = ''All'' \<or> to_String (credits c) = creditsValue);
          matchesInstructor = (instructorValue = ''All'' \<or> getInstructorLabel c = JStr instructorValue)
      in matchesDept \<and> matchesLevel \<and> matchesCredits \<and> matchesInstructor)"

text \<open>
  An error result is the exception leaving the function, thrown by the sort before anything
  is rendered: inside \<^verbatim>\<open>reader.onload\<close> it is caught; from a change listener it is not, and
  the state it leaves behind is not described here.
\<close>

definition applyFiltersAndSort :: "host \<Rightarrow> state \<Rightarrow> js_error + state" where
  "applyFiltersAndSort h s =
     (if allCourses s = [] then Inr (renderCourseDetails None (renderCourseList s))
      else
        (let deptValue = sel_value (departmentSelect s);
             levelValue = sel_value (levelSelect s);
             creditsValue = sel_value (creditsSelect s);
             instructorValue = sel_value (instructorSelect s);
             sortValue = sortSelect s;
             filtered = filter (course_matches deptValue levelValue creditsValue instructorValue) (allCourses s)
         in case sortCourses h filtered sortValue of
              Inl e \<Rightarrow> Inl e
            | Inr result \<Rightarrow>
                (let s1 = renderCourseList (s\<lparr>filteredCourses := result\<rparr>)
                 in if result \<noteq> []
                    then Inr (markSelectedCourse (id' (hd result)) (renderCourseDetails (Some (hd result)) s1))
                    else Inr (renderCourseDetails None s1))))"

subsection \<open>Loading a file\<close>

text \<open>\<^verbatim>\<open>jsonData.forEach(courseObj => allCourses.push(new Course(courseObj)))\<close>\<close>

fun push_courses :: "course list \<Rightarrow> jsval list \<Rightarrow> js_error + course list" where
  "push_courses acc [] = Inr acc"
| "push_courses acc (courseObj # rest) =
     (case Course courseObj of
        Inl e \<Rightarrow> Inl e
      | Inr c \<Rightarrow> push_courses (acc @ [c]) rest)"

text \<open>
  The \<^verbatim>\<open>catch\<close> block of \<^verbatim>\<open>reader.onload\<close>. It is given the state at the throw; the two
  arrays it overwrites need not be recorded there.
\<close>

definition onload_catch :: "js_error \<Rightarrow> state \<Rightarrow> state" where
  "onload_catch err s =
     (let s1 = setError ''Invalid JSON file format.'' s;
          s2 = s1\<lparr>allCourses := [], filteredCourses := []\<rparr>;
          s3 = renderCourseDetails None (renderCourseList s2)
      in s3\<lparr>console := console s3 @ [err]\<rparr>)"

text \<open>
  \<^verbatim>\<open>reader.onload\<close>. The argument is the outcome of \<^verbatim>\<open>JSON.parse(reader.result)\<close>:
  \<open>None\<close> when it throws a SyntaxError.
\<close>

definition reader_onload :: "host \<Rightarrow> jsval option \<Rightarrow> state \<Rightarrow> state" where
  "reader_onload h parsed s =
     (case parsed of
        None \<Rightarrow> onload_catch SyntaxError s
      | Some jsonData \<Rightarrow>
          (case jsonData of
             JArr elems \<Rightarrow>
               (case push_courses [] elems of
                  Inl e \<Rightarrow> onload_catch e s
                | Inr cs \<Rightarrow>
                    (let s1 = populateFilterDropdowns h (s\<lparr>allCourses := cs, filteredCourses := []\<rparr>)
                     in case applyFiltersAndSort h s1 of
                          Inl e \<Rightarrow> onload_catch e s1
                        | Inr s2 \<Rightarrow> setError [] s2))
           | _ \<Rightarrow> onload_catch (Error ''JSON root is not an array'') s))"

text \<open>\<^verbatim>\<open>reader.onerror\<close>, lines 101 to 103.\<close>

definition reader_onerror :: "state \<Rightarrow> state" where
  "reader_onerror s = setError ''Could not read file. please try again.'' s"

text \<open>A change listener of one of the five drop-downs: the new value, then the engine.\<close>

datatype control = DepartmentSel | LevelSel | CreditsSel | InstructorSel | SortSel

definition set_control :: "control \<Rightarrow> string \<Rightarrow> state \<Rightarrow> state" where
  "set_control ctl v s =
     (case ctl of
        DepartmentSel \<Rightarrow> s\<lparr>departmentSelect := (departmentSelect s)\<lparr>sel_value := v\<rparr>\<rparr>
      | LevelSel \<Rightarrow> s\<lparr>levelSelect := (levelSelect s)\<lparr>sel_value := v\<rparr>\<rparr>
      | CreditsSel \<Rightarrow> s\<lparr>creditsSelect := (creditsSelect s)\<lparr>sel_value := v\<rparr>\<rparr>
      | InstructorSel \<Rightarrow> s\<lparr>instructorSelect := (instructorSelect s)\<lparr>sel_value := v\<rparr>\<rparr>
      | SortSel \<Rightarrow> s\<lparr>sortSelect := v\<rparr>)"

definition on_change :: "host \<Rightarrow> control \<Rightarrow> string \<Rightarrow> state \<Rightarrow> js_error + state" where
  "on_change h ctl v s = applyFiltersAndSort h (set_control ctl v s)"

text \<open>
  The page before any file is loaded: both arrays empty, nothing rendered. The markup of the
  page is not part of the script; its four filter drop-downs are taken to hold the option
  \<^verbatim>\<open>All\<close>, and the value of the sort drop-down is a parameter.
\<close>

definition initial_state :: "string \<Rightarrow> state" where
  "initial_state sortValue =
     \<lparr>allCourses = [], filteredCourses = [], errorText = [], errorHidden = True,
      departmentSelect = resetSelectOptions ''All'', levelSelect = resetSelectOptions ''All'',
      creditsSelect = resetSelectOptions ''All'', instructorSelect = resetSelectOptions ''All'',
      sortSelect = sortValue, courseList = [], courseDetails = None, console = []\<rparr>"

section \<open>Example data\<close>

text \<open>
  A host that compares strings by their code units and reads a run of decimal digits as
  its number, and no other string as a number. The theorems hold for every host; the
  examples are evaluated with this one.
\<close>

definition example_host :: host where
  "example_host =
     \<lparr>localeCompare = (\<lambda>a b. if a < b then - 1 else if b < a then 1 else 0),
      stringToNumber =
        (\<lambda>str. if str \<noteq> [] \<and> list_all is_digit str then to_double (int (digits_val str)) else NaN)\<rparr>"

text \<open>
  The two-course catalog
  \<^verbatim>\<open>[{"id":"CS101"},{"id":"CS202","level":3,"credits":4,"instructor":"A. Lee","semester":"Fall 2024"}]\<close>
  and the page after loading it with no sort selected.
\<close>

definition scenario_json :: jsval where
  "scenario_json =
     JArr [JObj [(''id'', JStr ''CS101'')],
           JObj [(''id'', JStr ''CS202''), (''level'', JNum 3), (''credits'', JNum 4),
                 (''instructor'', JStr ''A. Lee''), (''semester'', JStr ''Fall 2024'')]]"

definition CS101 :: course where
  "CS101 = \<lparr>id' = JStr ''CS101'', title = JStr ''Untitled course'',
      department = JStr ''Unknown department'', level = JNull, credits = JNull, instructor = JNull,
      description = JStr ''No description available.'', semester = JStr ''Unknown semester''\<rparr>"

definition CS202 :: course where
  "CS202 = \<lparr>id' = JStr ''CS202'', title = JStr ''Untitled course'',
      department = JStr ''Unknown department'', level = JNum 3, credits = JNum 4,
      instructor = JStr ''A. Lee'', description = JStr ''No description available.'',
      semester = JStr ''Fall 2024''\<rparr>"

definition scenario_state :: "host \<Rightarrow> state" where
  "scenario_state h = reader_onload h (Some scenario_json) (initial_state ''none'')"

text \<open>
  A catalog with a wrong-typed level, the string \<^verbatim>\<open>"null"\<close>:
  \<^verbatim>\<open>[{"id":"CS101"},{"id":"CS303","level":"null"}]\<close>.
\<close>

definition null_level_json :: jsval where
  "null_level_json =
     JArr [JObj [(''id'', JStr ''CS101'')],
           JObj [(''id'', JStr ''CS303''), (''level'', JStr ''null'')]]"




definition CS303 :: course where
  "CS303 = \<lparr>id' = JStr ''CS303'', title = JStr ''Untitled course'',
      department = JStr ''Unknown department'', level = JStr ''null'', credits = JNull,
      instructor = JNull, description = JStr ''No description available.'',
      semester = JStr ''Unknown semester''\<rparr>"

section \<open>Facts about the host functions\<close>

subsection \<open>The sort\<close>

lemma insert_pure_set: "set (insert_pure cmp x ys) = insert x (set ys)"
  by (induction ys) auto

lemma insert_pure_mset: "mset (insert_pure cmp x ys) = add_mset x (mset ys)"
  by (induction ys) auto

lemma insert_pure_sorted:
  fixes k :: "'a \<Rightarrow> 'b::linorder"
  assumes "\<forall>y\<in>set ys. (cmp x y < 0) = (k x < k y)" and "sorted (map k ys)"
  shows "sorted (map k (insert_pure cmp x ys))"
  using assms
proof (induction ys)
  case Nil
  then show ?case by simp
next
  case (Cons y ys)
  show ?case
  proof (cases "cmp x y < 0")
    case True
    with Cons.prems have "k x < k y" by simp
    with Cons.prems True show ?thesis by auto
  next
    case False
    with Cons.prems have "k y \<le> k x" by auto
    moreover have "sorted (map k (insert_pure cmp x ys))"
      using Cons by simp
    ultimately show ?thesis
      using Cons.prems False by (auto simp: insert_pure_set)
  qed
qed

lemma foldl_insert_mset:
  "mset (foldl (\<lambda>acc x. insert_pure cmp x acc) acc xs) = mset acc + mset xs"
  by (induction xs arbitrary: acc) (auto simp: insert_pure_mset)

lemma foldl_insert_sorted:
  fixes k :: "'a \<Rightarrow> 'b::linorder"
  assumes "\<forall>a\<in>set acc \<union> set xs. \<forall>b\<in>set acc \<union> set xs. (cmp a b < 0) = (k a < k b)"
    and "sorted (map k acc)"
  shows "sorted (map k (foldl (\<lambda>acc x. insert_pure cmp x acc) acc xs))"
  using assms
proof (induction xs arbitrary: acc)
  case Nil
  then show ?case by simp
next
  case (Cons x xs)
  have "sorted (map k (insert_pure cmp x acc))"
    using Cons.prems by (intro insert_pure_sorted) auto
  moreover have "\<forall>a\<in>set (insert_pure cmp x acc) \<union> set xs. \<forall>b\<in>set (insert_pure cmp x acc) \<union> set xs.
      (cmp a b < 0) = (k a < k b)"
    using Cons.prems(1) by (auto simp: insert_pure_set)
  ultimately show ?case
    using Cons.IH [of "insert_pure cmp x acc"] by simp
qed

lemma js_sort_pure_mset: "mset (js_sort_pure cmp xs) = mset xs"
  by (simp add: js_sort_pure_def foldl_insert_mset)

lemma js_sort_pure_set: "set (js_sort_pure cmp xs) = set xs"
  using js_sort_pure_mset [of cmp xs] by (metis set_mset_mset)

lemma js_sort_pure_sorted:
  fixes k :: "'a \<Rightarrow> 'b::linorder"
  assumes "\<forall>a\<in>set xs. \<forall>b\<in>set xs. (cmp a b < 0) = (k a < k b)"
  shows "sorted (map k (js_sort_pure cmp xs))"
  unfolding js_sort_pure_def using assms by (intro foldl_insert_sorted) auto

lemma insert_by_pure:
  assumes "\<forall>y\<in>set ys. cmp x y = Inr (f x y)"
  shows "insert_by cmp x ys = Inr (insert_pure f x ys)"
  using assms by (induction ys) auto

lemma sort_from_pure:
  assumes "\<forall>a\<in>set acc \<union> set xs. \<forall>b\<in>set acc \<union> set xs. cmp a b = Inr (f a b)"
  shows "sort_from cmp acc xs = Inr (foldl (\<lambda>acc x. insert_pure f x acc) acc xs)"
  using assms
proof (induction xs arbitrary: acc)
  case Nil
  then show ?case by simp
next
  case (Cons x xs)
  have "insert_by cmp x acc = Inr (insert_pure f x acc)"
    using Cons.prems by (intro insert_by_pure) auto
  moreover have "sort_from cmp (insert_pure f x acc) xs
      = Inr (foldl (\<lambda>acc x. insert_pure f x acc) (insert_pure f x acc) xs)"
    using Cons.prems by (intro Cons.IH) (auto simp: insert_pure_set)
  ultimately show ?case by simp
qed

lemma js_sort_pure_eq:
  assumes "\<forall>a\<in>set xs. \<forall>b\<in>set xs. cmp a b = Inr (f a b)"
  shows "js_sort cmp xs = Inr (js_sort_pure f xs)"
  unfolding js_sort_def js_sort_pure_def using assms by (intro sort_from_pure) auto

lemma insert_pure_zero: "\<forall>y\<in>set ys. \<not> cmp x y < 0 \<Longrightarrow> insert_pure cmp x ys = ys @ [x]"
  by (induction ys) auto

lemma foldl_insert_zero:
  "\<forall>a b. \<not> cmp a b < 0 \<Longrightarrow> foldl (\<lambda>acc x. insert_pure cmp x acc) acc xs = acc @ xs"
  by (induction xs arbitrary: acc) (auto simp: insert_pure_zero)

subsection \<open>Doubles\<close>

lemma bit_length_le: "0 < n \<Longrightarrow> 2 ^ (bit_length n - 1) \<le> n"
proof (induction n rule: bit_length.induct)
  case (1 n)
  show ?case
  proof (cases "n div 2 = 0")
    case True
    with 1 show ?thesis
      by (simp add: bit_length.simps [of n] bit_length.simps [of 0])
  next
    case False
    with 1 have "2 ^ (bit_length (n div 2) - 1) \<le> n div 2"
      by simp
    moreover have "0 < bit_length (n div 2)"
      using False by (simp add: bit_length.simps [of "n div 2"])
    ultimately have "2 ^ bit_length (n div 2) \<le> 2 * (n div 2)"
      by (cases "bit_length (n div 2)") auto
    with 1 show ?thesis
      by (simp add: bit_length.simps [of n])
  qed
qed

lemma round_nat_safe: "n < 2 ^ 53 \<Longrightarrow> round_nat n = n"
  by (simp add: round_nat_def)

lemma round_nat_pos: "0 < n \<Longrightarrow> 0 < round_nat n"
proof (cases "n < 2 ^ 53")
  case True
  assume "0 < n"
  with True show ?thesis by (simp add: round_nat_def)
next
  case False
  assume n: "0 < n"
  let ?e = "bit_length n - 53"
  have "(2::nat) ^ ?e \<le> 2 ^ (bit_length n - 1)"
    by (rule power_increasing) auto
  with bit_length_le [OF n] have "2 ^ ?e \<le> n" by linarith
  then have "0 < n div 2 ^ ?e"
    by (simp add: div_greater_zero_iff)
  with False show ?thesis
    by (auto simp: round_nat_def Let_def)
qed

lemma to_double_safe: "\<bar>i\<bar> < 2 ^ 53 \<Longrightarrow> to_double i = Fin i"
proof -
  assume a: "\<bar>i\<bar> < 2 ^ 53"
  then have n: "nat \<bar>i\<bar> < 2 ^ 53"
    by (simp add: nat_less_iff)
  have "(2::nat) ^ 53 \<le> 2 ^ 1024"
    by (rule power_increasing) auto
  with n have "\<not> 2 ^ 1024 \<le> nat \<bar>i\<bar>"
    by linarith
  with n show ?thesis
    by (auto simp: to_double_def round_nat_safe Let_def)
qed

lemma compare_to_double: "(compare_value (to_double d) < 0) = (d < 0)"
proof (cases "d < 0")
  case True
  then have "0 < round_nat (nat \<bar>d\<bar>)"
    by (intro round_nat_pos) simp
  with True show ?thesis
    by (simp add: to_double_def Let_def)
next
  case False
  then show ?thesis
    by (simp add: to_double_def Let_def)
qed

lemma compare_sub_fin: "(compare_value (js_sub (Fin a) (Fin b)) < 0) = (a < b)"
  by (simp add: js_sub_def compare_to_double)

text \<open>
  Beyond \<open>2^53\<close> the key of a semester is rounded: with the year 900719925474099, Summer
  (rank 3) and Spring (rank 2) get the same key, \<open>2^53\<close>.
\<close>

lemma to_double_rounds: "to_double 9007199254740993 = Fin 9007199254740992"
proof -
  have "bit_length 9007199254740993 = 54"
    by (simp add: bit_length.simps)
  then have "round_nat 9007199254740993 = 9007199254740992"
    by (simp add: round_nat_def)
  then show ?thesis
    by (simp add: to_double_def)
qed

lemma to_double_exact: "to_double 9007199254740992 = Fin 9007199254740992"
proof -
  have "bit_length 9007199254740992 = 54"
    by (simp add: bit_length.simps)
  then have "round_nat 9007199254740992 = 9007199254740992"
    by (simp add: round_nat_def)
  then show ?thesis
    by (simp add: to_double_def)
qed

subsection \<open>Decimal numerals, \<^verbatim>\<open>parseInt\<close> and \<^verbatim>\<open>split\<close>\<close>

lemma digit_char_digit: "d < 10 \<Longrightarrow> is_digit (digit_char d) \<and> digit_val (digit_char d) = d"
  by (simp add: is_digit_def digit_val_def digit_char_def)

lemma string_of_nat_digits: "\<forall>c\<in>set (string_of_nat n). is_digit c"
proof (induction n rule: string_of_nat.induct)
  case (1 n)
  show ?case
  proof (cases "n < 10")
    case True
    then show ?thesis by (simp add: string_of_nat.simps [of n] digit_char_digit)
  next
    case False
    with 1 show ?thesis
      by (simp add: string_of_nat.simps [of n] digit_char_digit)
  qed
qed

lemma string_of_nat_nonempty: "string_of_nat n \<noteq> []"
  by (simp add: string_of_nat.simps [of n])

lemma digits_val_snoc: "digits_val (ds @ [c]) = 10 * digits_val ds + digit_val c"
  by (simp add: digits_val_def)

lemma digits_val_string_of_nat: "digits_val (string_of_nat n) = n"
proof (induction n rule: string_of_nat.induct)
  case (1 n)
  show ?case
  proof (cases "n < 10")
    case True
    then show ?thesis
      by (simp add: string_of_nat.simps [of n] digits_val_def digit_char_digit)
  next
    case False
    with 1 have "digits_val (string_of_nat (n div 10)) = n div 10" by simp
    with False show ?thesis
      by (simp add: string_of_nat.simps [of n] digits_val_snoc digit_char_digit)
  qed
qed

lemma digit_not_white: "is_digit c \<Longrightarrow> \<not> is_white c \<and> c \<noteq> CHR ''-'' \<and> c \<noteq> CHR ''+'' \<and> c \<noteq> CHR '' ''"
  by (auto simp: is_digit_def is_white_def)

lemma hd_string_of_nat: "is_digit (hd (string_of_nat n))"
  using string_of_nat_digits [of n] string_of_nat_nonempty [of n]
  by (cases "string_of_nat n") auto

lemma parseInt_string_of_int: "parseInt (JStr (string_of_int n)) = to_double n"
proof (cases "n < 0")
  case True
  let ?ds = "string_of_nat (nat (- n))"
  have tw: "takeWhile is_digit ?ds = ?ds"
    using string_of_nat_digits by (simp add: takeWhile_eq_all_conv)
  have "\<not> is_white CHR ''-''" by (simp add: is_white_def)
  with True show ?thesis
    by (simp add: parseInt_def string_of_int_def Let_def tw string_of_nat_nonempty
        digits_val_string_of_nat)
next
  case False
  let ?ds = "string_of_nat (nat n)"
  have tw: "takeWhile is_digit ?ds = ?ds"
    using string_of_nat_digits by (simp add: takeWhile_eq_all_conv)
  obtain c cs where cs: "?ds = c # cs"
    using string_of_nat_nonempty [of "nat n"] by (cases ?ds) auto
  with hd_string_of_nat [of "nat n"] have "is_digit c" by simp
  with digit_not_white have c: "\<not> is_white c" "c \<noteq> CHR ''-''" "c \<noteq> CHR ''+''" by auto
  have "digits_val (c # cs) = nat n"
    using digits_val_string_of_nat [of "nat n"] cs by simp
  with False c cs show ?thesis
    using tw by (simp add: parseInt_def string_of_int_def Let_def)
qed

lemma split_space_nonempty: "split_space s \<noteq> []"
  by (cases s) (auto split: list.splits)

lemma split_space_no_space: "CHR '' '' \<notin> set s \<Longrightarrow> split_space s = [s]"
  by (induction s) auto

lemma split_space_append:
  "CHR '' '' \<notin> set t \<Longrightarrow> split_space (t @ CHR '' '' # r) = t # split_space r"
  by (induction t) auto

lemma string_of_int_no_space: "CHR '' '' \<notin> set (string_of_int n)"
  using string_of_nat_digits digit_not_white by (auto simp: string_of_int_def)

lemma termOrder_range: "0 \<le> termOrder term \<and> termOrder term \<le> 4"
  by (simp add: termOrder_def)

lemma semesterToNumber_format:
  assumes "CHR '' '' \<notin> set t"
  shows "semesterToNumber (JStr (t @ CHR '' '' # string_of_int n)) =
     Inr (js_add (js_mul (or_zero (to_double n)) (Fin 10)) (Fin (termOrder (JStr t))))"
  using assms
  by (simp add: semesterToNumber_def split_space_append split_space_no_space string_of_int_no_space
      index_parts_def parseInt_string_of_int)

lemma semester_key_safe:
  assumes "\<bar>n\<bar> * 10 + 4 < 2 ^ 53"
  shows "js_add (js_mul (or_zero (to_double n)) (Fin 10)) (Fin (termOrder term)) =
     Fin (n * 10 + termOrder term)"
proof -
  have r: "0 \<le> termOrder term" "termOrder term \<le> 4"
    using termOrder_range by simp_all
  from assms have "\<bar>n\<bar> < 2 ^ 53"
    by linarith
  then have "or_zero (to_double n) = Fin n"
    by (simp add: to_double_safe or_zero_def)
  moreover from assms have "\<bar>n * 10\<bar> < 2 ^ 53"
    by (simp add: abs_mult)
  then have "to_double (n * 10) = Fin (n * 10)"
    by (rule to_double_safe)
  moreover from assms r have "\<bar>n * 10 + termOrder term\<bar> < 2 ^ 53"
    by (simp add: abs_mult abs_if split: if_splits)
  then have "to_double (n * 10 + termOrder term) = Fin (n * 10 + termOrder term)"
    by (rule to_double_safe)
  ultimately show ?thesis
    by simp
qed

lemma semester_key_example:
  "semesterToNumber (JStr ''Fall 2020'') = Inr (Fin 20204) \<and>
   semesterToNumber (JStr ''Spring 2021'') = Inr (Fin 20212) \<and>
   semesterToNumber (JStr ''Winter 2021'') = Inr (Fin 20211) \<and>
   semesterToNumber (JStr ''Unknown semester'') = Inr (Fin 0)"
proof -
  have n: "string_of_int 2020 = ''2020''" "string_of_int 2021 = ''2021''"
    by code_simp+
  have w: "\<not> is_white CHR ''s''" "\<not> is_digit CHR ''s''"
    by (simp_all add: is_white_def is_digit_def)
  have u: "semesterToNumber (JStr ''Unknown semester'') = Inr (Fin 0)"
    using w semester_key_safe [of 0 "JStr ''Unknown''"]
    by (simp add: semesterToNumber_def index_parts_def parseInt_def or_zero_def termOrder_def
        to_double_safe)
  show ?thesis
    using semesterToNumber_format [of "''Fall''" 2020] semesterToNumber_format [of "''Spring''" 2021]
      semesterToNumber_format [of "''Winter''" 2021]
      semester_key_safe [of 2020 "JStr ''Fall''"] semester_key_safe [of 2021 "JStr ''Spring''"]
      semester_key_safe [of 2021 "JStr ''Winter''"] u
    by (simp add: n termOrder_def)
qed

subsection \<open>Sets in insertion order\<close>

lemma set_add_set: "set (set_add xs v) = insert v (set xs)"
  by (auto simp: set_add_def)

lemma set_add_count_le:
  assumes "is_primitive v" and "count_list xs v \<le> 1"
  shows "count_list (set_add xs w) v \<le> 1"
proof (cases "w = v")
  case True
  show ?thesis
  proof (cases "v \<in> set xs")
    case True
    with \<open>w = v\<close> assms show ?thesis by (simp add: set_add_def)
  next
    case False
    then have "count_list xs v = 0" by (simp add: count_list_0_iff)
    with \<open>w = v\<close> False assms show ?thesis by (simp add: set_add_def)
  qed
next
  case False
  with assms show ?thesis by (simp add: set_add_def)
qed

lemma foldl_set_add_set: "set (foldl set_add acc vs) = set acc \<union> set vs"
  by (induction vs arbitrary: acc) (auto simp: set_add_set)

lemma foldl_set_add_count_le:
  assumes "is_primitive v" and "count_list acc v \<le> 1"
  shows "count_list (foldl set_add acc vs) v \<le> 1"
  using assms
proof (induction vs arbitrary: acc)
  case Nil
  then show ?case by simp
next
  case (Cons w vs)
  have "count_list (set_add acc w) v \<le> 1"
    using Cons.prems by (rule set_add_count_le)
  with Cons.IH [of "set_add acc w"] Cons.prems(1) show ?case by simp
qed





lemma instructors_set_eq: "instructors_set cs = foldl set_add [] (map getInstructorLabel cs)"
  by (simp add: instructors_set_def foldl_map)



lemma count_sortedInstructors_le:
  "is_primitive v \<Longrightarrow> count_list (sortedInstructors cs) v \<le> 1"
proof -
  assume p: "is_primitive v"
  have "count_list (sortedInstructors cs) v = count (mset (sortedInstructors cs)) v"
    by (simp add: count_mset)
  also have "\<dots> = count_list (instructors_set cs) v"
    by (simp add: sortedInstructors_def js_sort_pure_mset count_mset)
  also have "\<dots> \<le> 1"
    unfolding instructors_set_eq using p by (intro foldl_set_add_count_le) auto
  finally show ?thesis .
qed

lemma set_sortedInstructors: "set (sortedInstructors cs) = getInstructorLabel ` set cs"
  by (simp add: sortedInstructors_def js_sort_pure_set instructors_set_eq foldl_set_add_set)

section \<open>Record normalisation\<close>

text \<open>
  Claim C4, as the code has it. Normalisation of a JSON object never throws, and \<open>id\<close>,
  \<open>title\<close>, \<open>department\<close>, \<open>description\<close> and \<open>semester\<close> are always defined and
  not null: each is the source value itself when that value is truthy and the default
  string otherwise, so it is a string whenever the source value is a string. A truthy
  source value of another type is kept as it is. No field of the course is undefined.
\<close>

theorem Course_total_defined:
  "\<exists>c. Course (JObj kvs) = Inr c \<and>
     (\<forall>(f, name, d) \<in> set [(id', ''id'', ''Unknown ID''), (title, ''title'', ''Untitled course''),
          (department, ''department'', ''Unknown department''),
          (description, ''description'', ''No description available.''),
          (semester, ''semester'', ''Unknown semester'')].
        f c \<noteq> JUndefined \<and> f c \<noteq> JNull \<and>
        (truthy (get_prop (JObj kvs) name) \<longrightarrow> f c = get_prop (JObj kvs) name) \<and>
        (\<not> truthy (get_prop (JObj kvs) name) \<longrightarrow> f c = JStr d) \<and>
        (is_string (get_prop (JObj kvs) name) \<longrightarrow> is_string (f c))) \<and>
     level c \<noteq> JUndefined \<and> credits c \<noteq> JUndefined \<and> instructor c \<noteq> JUndefined"
proof -
  have d: "truthy v \<Longrightarrow> v \<noteq> JUndefined \<and> v \<noteq> JNull" for v
    by (cases v) auto
  have a: "js_or v (JStr (x # xs)) \<noteq> JUndefined \<and> js_or v (JStr (x # xs)) \<noteq> JNull \<and>
      (is_string v \<longrightarrow> is_string (js_or v (JStr (x # xs))))" for v x xs
    using d [of v] by (simp add: js_or_def)
  have b: "js_or v JNull \<noteq> JUndefined" for v
    using d [of v] by (simp add: js_or_def)
  show ?thesis
    using a b by (simp add: Course_def) (simp add: js_or_def)
qed

text \<open>The record \<^verbatim>\<open>{"id": 5, "title": "Algorithms", "semester": null}\<close>.\<close>

theorem Course_total_defined_witness:
  "\<exists>c. Course (JObj [(''id'', JNum 5), (''title'', JStr ''Algorithms''), (''semester'', JNull)]) = Inr c \<and>
     id' c = JNum 5 \<and> title c = JStr ''Algorithms'' \<and> is_string (title c) \<and>
     semester c = JStr ''Unknown semester'' \<and> department c = JStr ''Unknown department''"
  using Course_total_defined [of "[(''id'', JNum 5), (''title'', JStr ''Algorithms''), (''semester'', JNull)]"]
  by auto

text \<open>
  Claim C4 as stated fails on a wrong-typed field: the record \<^verbatim>\<open>{"id": 5}\<close> is given the
  number 5 as its \<open>id\<close>, not a string.
\<close>

theorem Course_wrong_typed_id_counterexample:
  "Course (JObj [(''id'', JNum 5)]) =
     Inr \<lparr>id' = JNum 5, title = JStr ''Untitled course'', department = JStr ''Unknown department'',
          level = JNull, credits = JNull, instructor = JNull,
          description = JStr ''No description available.'', semester = JStr ''Unknown semester''\<rparr>
   \<and> \<not> is_string (JNum 5)"
  by (simp add: Course_def js_or_def)

text \<open>
  Claim C2, as the code has it. For every raw record, \<open>level\<close> and \<open>credits\<close> are null when
  the source field is absent or null and the source value itself when that value is
  truthy; \<open>instructor\<close> is null when the source field is absent or falsy and the source
  value itself otherwise. Replacing a falsy value is not limited to the five string fields,
  which get their default string: it reaches \<open>instructor\<close> too.
\<close>

theorem Course_level_credits_instructor:
  "\<exists>c. Course (JObj kvs) = Inr c \<and>
     (\<forall>(f, name) \<in> set [(level, ''level''), (credits, ''credits'')].
        (map_of kvs name = None \<longrightarrow> f c = JNull) \<and>
        (map_of kvs name = Some JNull \<longrightarrow> f c = JNull) \<and>
        (\<forall>v. map_of kvs name = Some v \<and> truthy v \<longrightarrow> f c = v)) \<and>
     (map_of kvs ''instructor'' = None \<longrightarrow> instructor c = JNull) \<and>
     (\<forall>v. map_of kvs ''instructor'' = Some v \<and> \<not> truthy v \<longrightarrow> instructor c = JNull) \<and>
     (\<forall>v. map_of kvs ''instructor'' = Some v \<and> truthy v \<longrightarrow> instructor c = v) \<and>
     (\<forall>(f, name, d) \<in> set [(id', ''id'', ''Unknown ID''), (title, ''title'', ''Untitled course''),
          (department, ''department'', ''Unknown department''),
          (description, ''description'', ''No description available.''),
          (semester, ''semester'', ''Unknown semester'')].
        (map_of kvs name = None \<longrightarrow> f c = JStr d) \<and>
        (\<forall>v. map_of kvs name = Some v \<and> \<not> truthy v \<longrightarrow> f c = JStr d) \<and>
        (\<forall>v. map_of kvs name = Some v \<and> truthy v \<longrightarrow> f c = v))"
proof -
  have f: "(map_of kvs name = None \<longrightarrow> js_or (get_prop (JObj kvs) name) d = d) \<and>
      (\<forall>v. map_of kvs name = Some v \<and> \<not> truthy v \<longrightarrow> js_or (get_prop (JObj kvs) name) d = d) \<and>
      (\<forall>v. map_of kvs name = Some v \<and> truthy v \<longrightarrow> js_or (get_prop (JObj kvs) name) d = v)"
    for name d
    by (auto simp: js_or_def)
  have g: "map_of kvs name = Some JNull \<longrightarrow> js_or (get_prop (JObj kvs) name) d = d" for name d
    by (simp add: js_or_def)
  show ?thesis
    using f g by (simp add: Course_def del: get_prop.simps)
qed

text \<open>
  The record \<^verbatim>\<open>{"id": "CS202", "level": 3, "credits": null, "instructor": "A. Lee", "title": ""}\<close>.
\<close>

theorem Course_level_credits_instructor_witness:
  "\<exists>c. Course (JObj [(''id'', JStr ''CS202''), (''level'', JNum 3), (''credits'', JNull),
          (''instructor'', JStr ''A. Lee''), (''title'', JStr [])]) = Inr c \<and>
     level c = JNum 3 \<and> credits c = JNull \<and> instructor c = JStr ''A. Lee'' \<and>
     id' c = JStr ''CS202'' \<and> title c = JStr ''Untitled course'' \<and>
     semester c = JStr ''Unknown semester''"
  using Course_level_credits_instructor [of "[(''id'', JStr ''CS202''), (''level'', JNum 3),
          (''credits'', JNull), (''instructor'', JStr ''A. Lee''), (''title'', JStr [])]"]
  by auto

text \<open>
  Claim C2 as stated fails: in \<^verbatim>\<open>{"id": "CS101", "instructor": ""}\<close> the instructor field is
  present and holds the empty string, and the course stores null for it.
\<close>

theorem Course_empty_instructor_counterexample:
  "Course (JObj [(''id'', JStr ''CS101''), (''instructor'', JStr [])]) =
     Inr \<lparr>id' = JStr ''CS101'', title = JStr ''Untitled course'', department = JStr ''Unknown department'',
          level = JNull, credits = JNull, instructor = JNull,
          description = JStr ''No description available.'', semester = JStr ''Unknown semester''\<rparr>
   \<and> JStr [] \<noteq> JNull"
  by (simp add: Course_def js_or_def)

text \<open>
  The same \<^verbatim>\<open>||\<close> stores null for a level or a number of credits that is 0, although the
  constructor's comment speaks of values that are missing or null, and the rest of the script
  tests these two fields against null, not for truthiness.
\<close>

lemma Course_zero_level:
  "Course (JObj [(''id'', JStr ''CS101''), (''level'', JNum 0), (''credits'', JNum 0)]) =
     Inr \<lparr>id' = JStr ''CS101'', title = JStr ''Untitled course'', department = JStr ''Unknown department'',
          level = JNull, credits = JNull, instructor = JNull,
          description = JStr ''No description available.'', semester = JStr ''Unknown semester''\<rparr>"
  by (simp add: Course_def js_or_def)

text \<open>
  Claim C10. For every raw record whose instructor field is present and falsy, the course
  stores null as its instructor, its label is \<^verbatim>\<open>TBA\<close>, it passes the instructor filter
  for the selection \<^verbatim>\<open>TBA\<close> as it does for \<^verbatim>\<open>All\<close>, and in the instructor options of any
  catalog that holds it \<^verbatim>\<open>TBA\<close> occurs once.
\<close>

theorem falsy_instructor_is_TBA:
  assumes "map_of kvs ''instructor'' = Some v" and "\<not> truthy v"
  shows "\<exists>c. Course (JObj kvs) = Inr c \<and> instructor c = JNull \<and>
     getInstructorLabel c = JStr ''TBA'' \<and>
     course_matches ''All'' ''All'' ''All'' ''TBA'' c \<and>
     (\<forall>d l cr. course_matches d l cr ''TBA'' c = course_matches d l cr ''All'' c) \<and>
     sortedInstructors [c] = [JStr ''TBA''] \<and>
     (\<forall>cs. c \<in> set cs \<longrightarrow> count_list (sortedInstructors cs) (JStr ''TBA'') = 1)"
proof -
  obtain c where c: "Course (JObj kvs) = Inr c"
    by (simp add: Course_def)
  from c assms have i: "instructor c = JNull"
    by (auto simp: Course_def js_or_def)
  then have l: "getInstructorLabel c = JStr ''TBA''"
    by (simp add: getInstructorLabel_def)
  have m: "course_matches d lv cr ''TBA'' c = course_matches d lv cr ''All'' c" for d lv cr
    using l by (simp add: course_matches_def)
  have a: "course_matches ''All'' ''All'' ''All'' ''TBA'' c"
    using l by (simp add: course_matches_def)
  have s: "sortedInstructors [c] = [JStr ''TBA'']"
    using l by (simp add: sortedInstructors_def instructors_set_def set_add_def js_sort_pure_def)
  have n: "count_list (sortedInstructors cs) (JStr ''TBA'') = 1" if "c \<in> set cs" for cs
  proof -
    have "JStr ''TBA'' \<in> set (sortedInstructors cs)"
      using that l by (force simp: set_sortedInstructors)
    then have "count_list (sortedInstructors cs) (JStr ''TBA'') \<noteq> 0"
      by (simp add: count_list_0_iff)
    moreover have "count_list (sortedInstructors cs) (JStr ''TBA'') \<le> 1"
      by (rule count_sortedInstructors_le) simp
    ultimately show ?thesis by simp
  qed
  from c i l a m s n show ?thesis by blast
qed

text \<open>The record \<^verbatim>\<open>{"id": "CS101", "instructor": ""}\<close>.\<close>

theorem falsy_instructor_is_TBA_witness:
  "\<exists>c. Course (JObj [(''id'', JStr ''CS101''), (''instructor'', JStr [])]) = Inr c \<and>
     instructor c = JNull \<and> getInstructorLabel c = JStr ''TBA'' \<and>
     course_matches ''All'' ''All'' ''All'' ''TBA'' c \<and>
     sortedInstructors [c] = [JStr ''TBA'']"
proof -
  have "map_of [(''id'', JStr ''CS101''), (''instructor'', JStr [])] ''instructor'' = Some (JStr [])"
    by simp
  moreover have "\<not> truthy (JStr [])"
    by simp
  ultimately show ?thesis
    using falsy_instructor_is_TBA [of "[(''id'', JStr ''CS101''), (''instructor'', JStr [])]" "JStr []"]
    by blast
qed

section \<open>The two-course scenario\<close>

lemma push_scenario: "push_courses [] [JObj [(''id'', JStr ''CS101'')],
           JObj [(''id'', JStr ''CS202''), (''level'', JNum 3), (''credits'', JNum 4),
                 (''instructor'', JStr ''A. Lee''), (''semester'', JStr ''Fall 2024'')]] = Inr [CS101, CS202]"
  by (simp add: Course_def js_or_def CS101_def CS202_def)

lemma scenario_options:
  "sortedDepartments [CS101, CS202] = [JStr ''Unknown department''] \<and>
   sortedLevels h [CS101, CS202] = [JNum 3] \<and>
   sortedCredits h [CS101, CS202] = [JNum 4] \<and>
   sortedInstructors [CS101, CS202] = [JStr ''A. Lee'', JStr ''TBA'']"
  by (simp add: sortedDepartments_def sortedLevels_def sortedCredits_def sortedInstructors_def
      departments_set_def levels_set_def credits_set_def instructors_set_def set_add_def
      js_sort_pure_def getInstructorLabel_def default_compare_def CS101_def CS202_def)

lemma scenario_state_eq:
  "scenario_state h =
     \<lparr>allCourses = [CS101, CS202], filteredCourses = [CS101, CS202], errorText = [], errorHidden = True,
      departmentSelect = \<lparr>sel_options = [''All'', ''Unknown department''], sel_value = ''All''\<rparr>,
      levelSelect = \<lparr>sel_options = [''All'', ''3''], sel_value = ''All''\<rparr>,
      creditsSelect = \<lparr>sel_options = [''All'', ''4''], sel_value = ''All''\<rparr>,
      instructorSelect = \<lparr>sel_options = [''All'', ''A. Lee'', ''TBA''], sel_value = ''All''\<rparr>,
      sortSelect = ''none'',
      courseList = [\<lparr>textContent = ''CS101'', selected = True\<rparr>, \<lparr>textContent = ''CS202'', selected = False\<rparr>],
      courseDetails = Some CS101, console = []\<rparr>"
proof -
  have n: "string_of_int 3 = ''3''" "string_of_int 4 = ''4''"
    by code_simp+
  have f: "filter (course_matches ''All'' ''All'' ''All'' ''All'') [CS101, CS202] = [CS101, CS202]"
    by (simp add: course_matches_def)
  have i: "id' CS101 = JStr ''CS101''" "id' CS202 = JStr ''CS202''"
    by (simp_all add: CS101_def CS202_def)
  show ?thesis
    unfolding scenario_state_def scenario_json_def
    by (simp add: reader_onload_def push_scenario populateFilterDropdowns_def scenario_options
        initial_state_def resetSelectOptions_def append_options_def n applyFiltersAndSort_def f
        Let_def sortCourses_def renderCourseList_def renderCourseDetails_def markSelectedCourse_def
        setError_def i course_matches_def del: push_courses.simps)
qed

section \<open>The filter and sort engine\<close>

lemma semesterToNumber_string: "\<exists>x. semesterToNumber (JStr str) = Inr x"
  by (simp add: semesterToNumber_def Let_def)

lemma semesterToNumber_falsy: "\<not> truthy v \<Longrightarrow> semesterToNumber v = Inr (Fin 0)"
  by (simp add: semesterToNumber_def)

lemma semester_compare_strings:
  assumes "is_string a" and "is_string b"
  shows "\<exists>d. semester_compare a b = Inr d"
proof -
  obtain sa sb where ab: "a = JStr sa" "b = JStr sb"
    using assms by (cases a; cases b) auto
  obtain x y where "semesterToNumber (JStr sa) = Inr x" "semesterToNumber (JStr sb) = Inr y"
    using semesterToNumber_string by blast
  with ab show ?thesis by (simp add: semester_compare_def)
qed

lemma semester_compare_fin:
  assumes "semesterToNumber a = Inr (Fin x)" and "semesterToNumber b = Inr (Fin y)"
  shows "semester_compare a b = Inr (compare_value (js_sub (Fin x) (Fin y)))"
  using assms by (simp add: semester_compare_def)

lemma compare_courses_default:
  assumes "sortValue \<notin> {''id-asc'', ''id-desc'', ''title-asc'', ''title-desc'', ''sem-earliest'', ''sem-latest''}"
  shows "compare_courses h sortValue a b = Inr 0"
  using assms by (simp add: compare_courses_def)

lemma sortCourses_default:
  assumes "sortValue \<notin> {''id-asc'', ''id-desc'', ''title-asc'', ''title-desc'', ''sem-earliest'', ''sem-latest''}"
  shows "sortCourses h cs sortValue = Inr cs"
proof (cases "sortValue = ''none''")
  case True
  then show ?thesis by (simp add: sortCourses_def)
next
  case False
  have "js_sort (compare_courses h sortValue) cs = Inr (js_sort_pure (\<lambda>a b. 0) cs)"
    using assms by (intro js_sort_pure_eq) (simp add: compare_courses_default)
  moreover have "js_sort_pure (\<lambda>a b. 0 :: int) cs = cs"
    by (simp add: js_sort_pure_def foldl_insert_zero)
  ultimately show ?thesis using False by (simp add: sortCourses_def)
qed

lemma filter_all: "filter (course_matches ''All'' ''All'' ''All'' ''All'') cs = cs"
  by (simp add: course_matches_def)

text \<open>
  Claim C5. With the four selections at \<^verbatim>\<open>All\<close> and a sort value that reorders nothing
  (\<^verbatim>\<open>none\<close>, or any value that is not one of the six sort keys), the filter keeps every
  course and the engine returns with \<open>filteredCourses\<close> equal to \<open>allCourses\<close>: the same
  elements in the same order. The last hypothesis holds in every state of the page (see
  \<open>catalog_invariant\<close> below): on an empty catalog the engine returns early and leaves
  \<open>filteredCourses\<close> as it is.
\<close>

theorem all_selections_round_trip:
  assumes "sel_value (departmentSelect s) = ''All''" and "sel_value (levelSelect s) = ''All''"
    and "sel_value (creditsSelect s) = ''All''" and "sel_value (instructorSelect s) = ''All''"
    and "sortSelect s \<notin> {''id-asc'', ''id-desc'', ''title-asc'', ''title-desc'', ''sem-earliest'', ''sem-latest''}"
    and "allCourses s = [] \<longrightarrow> filteredCourses s = []"
  shows "filter (course_matches ''All'' ''All'' ''All'' ''All'') (allCourses s) = allCourses s \<and>
     (\<exists>s'. applyFiltersAndSort h s = Inr s' \<and> filteredCourses s' = allCourses s \<and>
        allCourses s' = allCourses s)"
proof (cases "allCourses s = []")
  case True
  with assms(6) show ?thesis
    by (simp add: applyFiltersAndSort_def renderCourseDetails_def renderCourseList_def)
next
  case False
  have "sortCourses h (allCourses s) (sortSelect s) = Inr (allCourses s)"
    using assms(5) by (rule sortCourses_default)
  with False assms(1-4) show ?thesis
    by (simp add: applyFiltersAndSort_def Let_def filter_all renderCourseDetails_def
        renderCourseList_def markSelectedCourse_def)
qed

text \<open>The loaded two-course catalog: all four selections at \<^verbatim>\<open>All\<close>, sort \<^verbatim>\<open>none\<close>.\<close>

theorem all_selections_round_trip_witness:
  "\<exists>s'. applyFiltersAndSort example_host (scenario_state example_host) = Inr s' \<and>
     filteredCourses s' = [CS101, CS202]"
proof -
  let ?s = "scenario_state example_host"
  have "sel_value (departmentSelect ?s) = ''All''" "sel_value (levelSelect ?s) = ''All''"
    "sel_value (creditsSelect ?s) = ''All''" "sel_value (instructorSelect ?s) = ''All''"
    "sortSelect ?s \<notin> {''id-asc'', ''id-desc'', ''title-asc'', ''title-desc'', ''sem-earliest'', ''sem-latest''}"
    "allCourses ?s = [] \<longrightarrow> filteredCourses ?s = []"
    by (simp_all add: scenario_state_eq)
  from all_selections_round_trip [OF this, of example_host]
  obtain s' where "applyFiltersAndSort example_host ?s = Inr s'"
    and "filteredCourses s' = allCourses ?s"
    by blast
  moreover have "allCourses ?s = [CS101, CS202]"
    by (simp add: scenario_state_eq)
  ultimately show ?thesis by simp
qed

lemma sortCourses_sem_earliest:
  assumes "\<forall>c\<in>set cs. \<exists>k. semesterToNumber (semester c) = Inr (Fin k)"
  shows "\<exists>ys. sortCourses h cs ''sem-earliest'' = Inr ys \<and> mset ys = mset cs \<and>
     sorted_wrt (\<lambda>a b. \<exists>x y. semesterToNumber (semester a) = Inr (Fin x) \<and>
        semesterToNumber (semester b) = Inr (Fin y) \<and> x \<le> y) ys"
proof -
  let ?k = "\<lambda>c. case semesterToNumber (semester c) of Inr (Fin x) \<Rightarrow> x | _ \<Rightarrow> (0::int)"
  let ?f = "\<lambda>a b. compare_value (js_sub (Fin (?k a)) (Fin (?k b)))"
  let ?ys = "js_sort_pure ?f cs"
  have key: "semesterToNumber (semester c) = Inr (Fin (?k c))" if "c \<in> set cs" for c
    using that assms by fastforce
  have "compare_courses h ''sem-earliest'' a b = Inr (?f a b)" if "a \<in> set cs" "b \<in> set cs" for a b
    using semester_compare_fin [OF key [OF that(1)] key [OF that(2)]]
    by (simp add: compare_courses_def)
  then have "js_sort (compare_courses h ''sem-earliest'') cs = Inr ?ys"
    by (intro js_sort_pure_eq) blast
  then have r: "sortCourses h cs ''sem-earliest'' = Inr ?ys"
    by (simp add: sortCourses_def)
  have m: "mset ?ys = mset cs"
    by (rule js_sort_pure_mset)
  have "sorted (map ?k ?ys)"
    by (rule js_sort_pure_sorted) (simp add: compare_sub_fin)
  then have "sorted_wrt (\<lambda>a b. ?k a \<le> ?k b) ?ys"
    by (simp add: sorted_map)
  moreover have "\<exists>x y. semesterToNumber (semester a) = Inr (Fin x) \<and>
        semesterToNumber (semester b) = Inr (Fin y) \<and> x \<le> y"
    if "a \<in> set ?ys" "b \<in> set ?ys" "?k a \<le> ?k b" for a b
  proof -
    from that have "a \<in> set cs" "b \<in> set cs"
      by (simp_all add: js_sort_pure_set)
    with key have "semesterToNumber (semester a) = Inr (Fin (?k a))"
      "semesterToNumber (semester b) = Inr (Fin (?k b))"
      by blast+
    with that(3) show ?thesis by blast
  qed
  ultimately have "sorted_wrt (\<lambda>a b. \<exists>x y. semesterToNumber (semester a) = Inr (Fin x) \<and>
        semesterToNumber (semester b) = Inr (Fin y) \<and> x \<le> y) ?ys"
    by (rule sorted_wrt_mono_rel [rotated]) blast
  with r m show ?thesis by blast
qed

lemma termOrder_values:
  "termOrder (JStr ''Winter'') = 1 \<and> termOrder (JStr ''Spring'') = 2 \<and>
   termOrder (JStr ''Summer'') = 3 \<and> termOrder (JStr ''Fall'') = 4"
  by (simp add: termOrder_def)

lemma sem_example:
  "sortCourses h [c\<lparr>semester := JStr ''Fall 2020''\<rparr>, c\<lparr>semester := JStr ''Spring 2021''\<rparr>,
          c\<lparr>semester := JStr ''Winter 2021''\<rparr>] ''sem-earliest'' =
       Inr [c\<lparr>semester := JStr ''Fall 2020''\<rparr>, c\<lparr>semester := JStr ''Winter 2021''\<rparr>,
          c\<lparr>semester := JStr ''Spring 2021''\<rparr>]"
  using semester_key_example
  by (simp add: sortCourses_def js_sort_def compare_courses_def semester_compare_def compare_sub_fin)

text \<open>
  With the year 900719925474099 the exact sum for Summer, 9007199254740993, is not a double:
  the key is \<open>2^53\<close>, the key of Spring of that year.
\<close>

lemma semester_key_rounded:
  "semesterToNumber (JStr ''Summer 900719925474099'') = Inr (Fin 9007199254740992) \<and>
   semesterToNumber (JStr ''Spring 900719925474099'') = Inr (Fin 9007199254740992)"
proof -
  have m: "to_double 900719925474099 = Fin 900719925474099"
    "to_double 9007199254740990 = Fin 9007199254740990"
    by (simp_all add: to_double_safe)
  show ?thesis
    by (simp add: semesterToNumber_def index_parts_def parseInt_def is_white_def is_digit_def
        digits_val_def digit_val_def termOrder_def or_zero_def m to_double_rounds to_double_exact)
qed

text \<open>A no-break space before the year is skipped by \<^verbatim>\<open>parseInt\<close>, as a space is.\<close>

lemma semester_key_no_break_space:
  "semesterToNumber (JStr (''Fall '' @ CHR 0xA0 # ''2024'')) = Inr (Fin 20244)"
proof -
  have m: "to_double 2024 = Fin 2024" "to_double 20240 = Fin 20240" "to_double 20244 = Fin 20244"
    by (simp_all add: to_double_safe)
  show ?thesis
    by (simp add: semesterToNumber_def index_parts_def parseInt_def is_white_def is_digit_def
        digits_val_def digit_val_def termOrder_def or_zero_def m)
qed

text \<open>
  Claim C6. For a semester string \<^verbatim>\<open><Term> <Year>\<close> the key is the double that
  \<^verbatim>\<open>year * 10 + termRank\<close> computes, with rank 1 for Winter, 2 for Spring, 3 for Summer, 4 for
  Fall and 0 for any other term token; while \<open>|year| * 10 + 4\<close> stays below \<open>2^53\<close> that
  double is the integer \<open>year * 10 + termRank\<close> itself. The default string of a missing
  semester and a falsy argument give key 0. On courses whose keys are finite,
  \<^verbatim>\<open>sem-earliest\<close> returns a permutation of its input in ascending order of the key; Fall
  2020, Spring 2021, Winter 2021 (keys 20204, 20212, 20211) come out as Fall 2020, Winter
  2021, Spring 2021.
\<close>

theorem semester_sort_key:
  "(CHR '' '' \<notin> set t \<longrightarrow>
      semesterToNumber (JStr (t @ CHR '' '' # string_of_int y)) =
        Inr (js_add (js_mul (or_zero (to_double y)) (Fin 10)) (Fin (termOrder (JStr t))))) \<and>
   (CHR '' '' \<notin> set t \<and> \<bar>y\<bar> * 10 + 4 < 2 ^ 53 \<longrightarrow>
      semesterToNumber (JStr (t @ CHR '' '' # string_of_int y)) = Inr (Fin (y * 10 + termOrder (JStr t)))) \<and>
   termOrder (JStr ''Winter'') = 1 \<and> termOrder (JStr ''Spring'') = 2 \<and>
   termOrder (JStr ''Summer'') = 3 \<and> termOrder (JStr ''Fall'') = 4 \<and>
   (t \<notin> {''Winter'', ''Spring'', ''Summer'', ''Fall''} \<longrightarrow> termOrder (JStr t) = 0) \<and>
   semesterToNumber (JStr ''Unknown semester'') = Inr (Fin 0) \<and>
   (\<not> truthy v \<longrightarrow> semesterToNumber v = Inr (Fin 0)) \<and>
   ((\<forall>c\<in>set cs. \<exists>k. semesterToNumber (semester c) = Inr (Fin k)) \<longrightarrow>
      (\<exists>ys. sortCourses h cs ''sem-earliest'' = Inr ys \<and> mset ys = mset cs \<and>
         sorted_wrt (\<lambda>a b. \<exists>x y. semesterToNumber (semester a) = Inr (Fin x) \<and>
            semesterToNumber (semester b) = Inr (Fin y) \<and> x \<le> y) ys)) \<and>
   semesterToNumber (JStr ''Fall 2020'') = Inr (Fin 20204) \<and>
   semesterToNumber (JStr ''Spring 2021'') = Inr (Fin 20212) \<and>
   semesterToNumber (JStr ''Winter 2021'') = Inr (Fin 20211) \<and>
   sortCourses h [c\<lparr>semester := JStr ''Fall 2020''\<rparr>, c\<lparr>semester := JStr ''Spring 2021''\<rparr>,
          c\<lparr>semester := JStr ''Winter 2021''\<rparr>] ''sem-earliest'' =
       Inr [c\<lparr>semester := JStr ''Fall 2020''\<rparr>, c\<lparr>semester := JStr ''Winter 2021''\<rparr>,
          c\<lparr>semester := JStr ''Spring 2021''\<rparr>]"
proof -
  have g: "CHR '' '' \<notin> set t \<longrightarrow>
      semesterToNumber (JStr (t @ CHR '' '' # string_of_int y)) =
        Inr (js_add (js_mul (or_zero (to_double y)) (Fin 10)) (Fin (termOrder (JStr t))))"
    by (simp add: semesterToNumber_format)
  have a: "CHR '' '' \<notin> set t \<and> \<bar>y\<bar> * 10 + 4 < 2 ^ 53 \<longrightarrow>
      semesterToNumber (JStr (t @ CHR '' '' # string_of_int y)) = Inr (Fin (y * 10 + termOrder (JStr t)))"
    by (simp add: semesterToNumber_format semester_key_safe)
  have b: "t \<notin> {''Winter'', ''Spring'', ''Summer'', ''Fall''} \<longrightarrow> termOrder (JStr t) = 0"
    by (simp add: termOrder_def)
  show ?thesis
    using g a b semester_key_example termOrder_values semesterToNumber_falsy [of v]
      sortCourses_sem_earliest [of cs h] sem_example [of h c]
    by blast
qed

text \<open>
  The semester \<^verbatim>\<open>Summer 2023\<close>, a null argument, and the two scenario courses, whose keys
  are 20244 and 0.
\<close>

theorem semester_sort_key_witness:
  "CHR '' '' \<notin> set ''Summer'' \<and> \<bar>2023\<bar> * 10 + 4 < (2 :: int) ^ 53 \<and>
   semesterToNumber (JStr (''Summer'' @ CHR '' '' # string_of_int 2023)) = Inr (Fin 20233) \<and>
   semesterToNumber JNull = Inr (Fin 0) \<and>
   (\<exists>ys. sortCourses example_host [CS202, CS101] ''sem-earliest'' = Inr ys \<and>
      mset ys = mset [CS202, CS101])"
proof -
  note k = semester_sort_key [of "''Summer''" 2023 JNull "[CS202, CS101]" example_host CS101]
  have n24: "string_of_int 2024 = ''2024''"
    by code_simp
  have "semesterToNumber (JStr ''Fall 2024'') = Inr (Fin 20244)"
    using semesterToNumber_format [of "''Fall''" 2024] semester_key_safe [of 2024 "JStr ''Fall''"]
    by (simp add: n24 termOrder_def)
  moreover have "semesterToNumber (JStr ''Unknown semester'') = Inr (Fin 0)"
    using k by blast
  ultimately have t: "\<forall>c\<in>set [CS202, CS101]. \<exists>k. semesterToNumber (semester c) = Inr (Fin k)"
    by (simp add: CS101_def CS202_def)
  have n: "CHR '' '' \<notin> set ''Summer''"
    by simp
  have s: "\<bar>2023\<bar> * 10 + 4 < (2 :: int) ^ 53"
    by simp
  have "semesterToNumber (JStr (''Summer'' @ CHR '' '' # string_of_int 2023))
      = Inr (Fin (2023 * 10 + termOrder (JStr ''Summer'')))"
    using k n s by blast
  moreover have "termOrder (JStr ''Summer'') = 3"
    using k by blast
  ultimately have a: "semesterToNumber (JStr (''Summer'' @ CHR '' '' # string_of_int 2023)) = Inr (Fin 20233)"
    by simp
  have "\<not> truthy JNull"
    by simp
  with k have b: "semesterToNumber JNull = Inr (Fin 0)"
    by blast
  from k t have c: "\<exists>ys. sortCourses example_host [CS202, CS101] ''sem-earliest'' = Inr ys \<and>
      mset ys = mset [CS202, CS101]"
    by blast
  from n s a b c show ?thesis by blast
qed

section \<open>The selection shown after a run of the engine\<close>

lemma locale_compare_string: "is_string a \<Longrightarrow> \<exists>d. locale_compare h a b = Inr d"
  by (cases a) (simp_all add: locale_compare_def)

lemma semester_compare_total:
  "is_string a \<Longrightarrow> is_string b \<Longrightarrow> \<exists>d. semester_compare a b = Inr d"
  by (rule semester_compare_strings)

lemma compare_courses_total:
  assumes "is_string (id' a) \<and> is_string (title a) \<and> is_string (semester a)"
    and "is_string (id' b) \<and> is_string (title b) \<and> is_string (semester b)"
  shows "\<exists>d. compare_courses h sortValue a b = Inr d"
  using assms by (simp add: compare_courses_def locale_compare_string semester_compare_total)

lemma sortCourses_total:
  assumes "\<forall>c\<in>set cs. is_string (id' c) \<and> is_string (title c) \<and> is_string (semester c)"
  shows "\<exists>ys. sortCourses h cs sortValue = Inr ys"
proof (cases "sortValue = ''none''")
  case True
  then show ?thesis by (simp add: sortCourses_def)
next
  case False
  let ?f = "\<lambda>a b. case compare_courses h sortValue a b of Inr d \<Rightarrow> d | Inl e \<Rightarrow> 0"
  have "compare_courses h sortValue a b = Inr (?f a b)" if "a \<in> set cs" "b \<in> set cs" for a b
  proof -
    from that assms obtain d where "compare_courses h sortValue a b = Inr d"
      using compare_courses_total [of a b h sortValue] by blast
    then show ?thesis by simp
  qed
  then have "js_sort (compare_courses h sortValue) cs = Inr (js_sort_pure ?f cs)"
    by (intro js_sort_pure_eq) blast
  with False show ?thesis by (simp add: sortCourses_def)
qed

lemma applyFiltersAndSort_total:
  assumes "\<forall>c\<in>set (allCourses s). is_string (id' c) \<and> is_string (title c) \<and> is_string (semester c)"
  shows "\<exists>s'. applyFiltersAndSort h s = Inr s'"
proof (cases "allCourses s = []")
  case True
  then show ?thesis by (simp add: applyFiltersAndSort_def)
next
  case False
  let ?filtered = "filter (course_matches (sel_value (departmentSelect s)) (sel_value (levelSelect s))
      (sel_value (creditsSelect s)) (sel_value (instructorSelect s))) (allCourses s)"
  have "\<forall>c\<in>set ?filtered. is_string (id' c) \<and> is_string (title c) \<and> is_string (semester c)"
    using assms by simp
  then obtain ys where "sortCourses h ?filtered (sortSelect s) = Inr ys"
    using sortCourses_total by blast
  with False show ?thesis by (simp add: applyFiltersAndSort_def Let_def)
qed

lemma applyFiltersAndSort_empty:
  assumes "allCourses s = []"
  shows "applyFiltersAndSort h s = Inr (renderCourseDetails None (renderCourseList s))"
  using assms by (simp add: applyFiltersAndSort_def)

lemma applyFiltersAndSort_result:
  assumes "applyFiltersAndSort h s = Inr s'" and "allCourses s = [] \<longrightarrow> filteredCourses s = []"
  shows "allCourses s' = allCourses s \<and>
     (filteredCourses s' = [] \<longrightarrow> courseDetails s' = None \<and> courseList s' = []) \<and>
     (filteredCourses s' \<noteq> [] \<longrightarrow>
        courseDetails s' = Some (hd (filteredCourses s')) \<and>
        courseList s' =
          map (\<lambda>c. \<lparr>textContent = to_String (id' c),
                     selected = (JStr (to_String (id' c)) = id' (hd (filteredCourses s')))\<rparr>)
            (filteredCourses s'))"
proof (cases "allCourses s = []")
  case True
  with assms(2) have "filteredCourses s = []" by simp
  with True assms(1) show ?thesis
    by (auto simp: applyFiltersAndSort_def renderCourseDetails_def renderCourseList_def)
next
  case False
  let ?filtered = "filter (course_matches (sel_value (departmentSelect s)) (sel_value (levelSelect s))
      (sel_value (creditsSelect s)) (sel_value (instructorSelect s))) (allCourses s)"
  from False assms(1) obtain ys where ys: "sortCourses h ?filtered (sortSelect s) = Inr ys"
    by (cases "sortCourses h ?filtered (sortSelect s)") (simp_all add: applyFiltersAndSort_def Let_def)
  show ?thesis
  proof (cases "ys = []")
    case True
    with False ys assms(1) have "s' = renderCourseDetails None (renderCourseList (s\<lparr>filteredCourses := []\<rparr>))"
      by (simp add: applyFiltersAndSort_def Let_def)
    then show ?thesis
      by (simp add: renderCourseDetails_def renderCourseList_def)
  next
    case ne: False
    with False ys assms(1) have "s' = markSelectedCourse (id' (hd ys))
        (renderCourseDetails (Some (hd ys)) (renderCourseList (s\<lparr>filteredCourses := ys\<rparr>)))"
      by (simp add: applyFiltersAndSort_def Let_def)
    with ne show ?thesis
      by (simp add: renderCourseDetails_def renderCourseList_def markSelectedCourse_def)
  qed
qed

text \<open>
  The two arrays are empty together: true of the page before a load and kept by every
  handler, whatever the state it starts from.
\<close>

lemma catalog_invariant:
  "allCourses (initial_state sortValue) = [] \<longrightarrow> filteredCourses (initial_state sortValue) = []"
  "allCourses (reader_onload h parsed s) = [] \<longrightarrow> filteredCourses (reader_onload h parsed s) = []"
  "(allCourses s = [] \<longrightarrow> filteredCourses s = []) \<Longrightarrow>
     allCourses (reader_onerror s) = [] \<longrightarrow> filteredCourses (reader_onerror s) = []"
  "(allCourses s = [] \<longrightarrow> filteredCourses s = []) \<Longrightarrow> on_change h ctl v s = Inr s' \<Longrightarrow>
     allCourses s' = [] \<longrightarrow> filteredCourses s' = []"
  "(allCourses s = [] \<longrightarrow> filteredCourses s = []) \<Longrightarrow>
     allCourses (item_onclick c s) = [] \<longrightarrow> filteredCourses (item_onclick c s) = []"
proof -
  show "allCourses (initial_state sortValue) = [] \<longrightarrow> filteredCourses (initial_state sortValue) = []"
    by (simp add: initial_state_def)
  have apply_inv: "allCourses t' = [] \<longrightarrow> filteredCourses t' = []"
    if "applyFiltersAndSort h t = Inr t'" "allCourses t = [] \<longrightarrow> filteredCourses t = []" for t t'
  proof (cases "allCourses t = []")
    case True
    with that show ?thesis
      by (auto simp: applyFiltersAndSort_empty renderCourseDetails_def renderCourseList_def)
  next
    case False
    with applyFiltersAndSort_result [OF that] show ?thesis by simp
  qed
  have catch_inv: "filteredCourses (onload_catch e t) = []" for e t
    by (simp add: onload_catch_def Let_def renderCourseDetails_def renderCourseList_def)
  show "allCourses (reader_onload h parsed s) = [] \<longrightarrow> filteredCourses (reader_onload h parsed s) = []"
  proof (cases parsed)
    case None
    then show ?thesis by (simp add: reader_onload_def catch_inv)
  next
    case (Some jsonData)
    show ?thesis
    proof (cases jsonData)
      case (JArr elems)
      show ?thesis
      proof (cases "push_courses [] elems")
        case (Inl e)
        with Some JArr show ?thesis by (simp add: reader_onload_def catch_inv)
      next
        case (Inr cs)
        let ?s1 = "populateFilterDropdowns h (s\<lparr>allCourses := cs, filteredCourses := []\<rparr>)"
        have f: "filteredCourses ?s1 = []"
          by (simp add: populateFilterDropdowns_def)
        show ?thesis
        proof (cases "applyFiltersAndSort h ?s1")
          case (Inl e)
          with Some JArr \<open>push_courses [] elems = Inr cs\<close> show ?thesis
            by (simp add: reader_onload_def catch_inv)
        next
          case (Inr s2)
          with f have "allCourses s2 = [] \<longrightarrow> filteredCourses s2 = []"
            using apply_inv [of ?s1 s2] by simp
          with Some JArr \<open>push_courses [] elems = Inr cs\<close> Inr show ?thesis
            by (simp add: reader_onload_def setError_def)
        qed
      qed
    qed (simp_all add: Some reader_onload_def catch_inv)
  qed
  show "allCourses (reader_onerror s) = [] \<longrightarrow> filteredCourses (reader_onerror s) = []"
    if "allCourses s = [] \<longrightarrow> filteredCourses s = []"
    using that by (simp add: reader_onerror_def setError_def)
  show "allCourses s' = [] \<longrightarrow> filteredCourses s' = []"
    if "allCourses s = [] \<longrightarrow> filteredCourses s = []" "on_change h ctl v s = Inr s'"
  proof -
    have "allCourses (set_control ctl v s) = [] \<longrightarrow> filteredCourses (set_control ctl v s) = []"
      using that(1) by (cases ctl) (simp_all add: set_control_def)
    with that(2) show ?thesis
      using apply_inv [of "set_control ctl v s" s'] by (simp add: on_change_def)
  qed
  show "allCourses (item_onclick c s) = [] \<longrightarrow> filteredCourses (item_onclick c s) = []"
    if "allCourses s = [] \<longrightarrow> filteredCourses s = []"
    using that by (simp add: item_onclick_def markSelectedCourse_def renderCourseDetails_def)
qed



section \<open>Failed loads\<close>

lemma onload_catch_result:
  "onload_catch err s =
     s\<lparr>allCourses := [], filteredCourses := [], errorText := ''Invalid JSON file format.'',
       errorHidden := False, courseList := [], courseDetails := None, console := console s @ [err]\<rparr>"
  by (simp add: onload_catch_def Let_def setError_def renderCourseList_def renderCourseDetails_def)

text \<open>
  Claim C3. When the parsed root is not an array, the handler throws
  \<^verbatim>\<open>JSON root is not an array\<close> inside its own \<^verbatim>\<open>try\<close>; the \<^verbatim>\<open>catch\<close> block shows the format
  message, empties both arrays and the rendered list, and logs the error. The handler
  returns a state for every input: nothing is thrown past it.
\<close>

theorem root_not_array_fails:
  assumes "\<not> is_array jsonData"
  shows "reader_onload h (Some jsonData) s = onload_catch (Error ''JSON root is not an array'') s \<and>
     allCourses (reader_onload h (Some jsonData) s) = [] \<and>
     filteredCourses (reader_onload h (Some jsonData) s) = [] \<and>
     errorText (reader_onload h (Some jsonData) s) = ''Invalid JSON file format.'' \<and>
     \<not> errorHidden (reader_onload h (Some jsonData) s) \<and>
     courseList (reader_onload h (Some jsonData) s) = [] \<and>
     courseDetails (reader_onload h (Some jsonData) s) = None \<and>
     console (reader_onload h (Some jsonData) s) = console s @ [Error ''JSON root is not an array'']"
proof -
  have "reader_onload h (Some jsonData) s = onload_catch (Error ''JSON root is not an array'') s"
    using assms by (cases jsonData) (simp_all add: reader_onload_def)
  then show ?thesis
    by (simp add: onload_catch_result)
qed

text \<open>The object \<^verbatim>\<open>{"id":"CS101"}\<close>, loaded over the two-course catalog.\<close>

theorem root_not_array_fails_witness:
  "\<not> is_array (JObj [(''id'', JStr ''CS101'')]) \<and>
   allCourses (scenario_state example_host) = [CS101, CS202] \<and>
   allCourses (reader_onload example_host (Some (JObj [(''id'', JStr ''CS101'')]))
      (scenario_state example_host)) = [] \<and>
   filteredCourses (reader_onload example_host (Some (JObj [(''id'', JStr ''CS101'')]))
      (scenario_state example_host)) = [] \<and>
   console (reader_onload example_host (Some (JObj [(''id'', JStr ''CS101'')]))
      (scenario_state example_host)) = [Error ''JSON root is not an array'']"
proof -
  have n: "\<not> is_array (JObj [(''id'', JStr ''CS101'')])"
    by simp
  note k = root_not_array_fails [OF n, of example_host "scenario_state example_host"]
  have c: "console (scenario_state example_host) = []"
    and a: "allCourses (scenario_state example_host) = [CS101, CS202]"
    by (simp_all add: scenario_state_eq)
  from k have "console (reader_onload example_host (Some (JObj [(''id'', JStr ''CS101'')]))
      (scenario_state example_host)) = console (scenario_state example_host) @ [Error ''JSON root is not an array'']"
    by blast
  with c have "console (reader_onload example_host (Some (JObj [(''id'', JStr ''CS101'')]))
      (scenario_state example_host)) = [Error ''JSON root is not an array'']"
    by simp
  with k n a show ?thesis by blast
qed

text \<open>
  A text that is not JSON, and an array with a \<^verbatim>\<open>null\<close> element (whose property access
  throws), end in the same \<^verbatim>\<open>catch\<close> block.
\<close>

lemma parse_error_fails:
  "reader_onload h None s = onload_catch SyntaxError s"
  by (simp add: reader_onload_def)

lemma null_element_fails:
  "reader_onload h (Some (JArr [JObj [(''id'', JStr ''CS101'')], JNull])) s = onload_catch TypeError s"
  by (simp add: reader_onload_def Course_def)

text \<open>
  Claim C1 fails on the code for a read error. \<^verbatim>\<open>reader.onerror\<close> sets the error
  message and nothing else, so after a read error that follows the load of the two-course
  catalog both arrays still hold the two courses. The \<^verbatim>\<open>catch\<close> block of \<^verbatim>\<open>reader.onload\<close>
  does empty them.
\<close>

theorem read_error_keeps_catalog:
  "allCourses (reader_onerror (scenario_state example_host)) = [CS101, CS202] \<and>
   filteredCourses (reader_onerror (scenario_state example_host)) = [CS101, CS202] \<and>
   courseDetails (reader_onerror (scenario_state example_host)) = Some CS101 \<and>
   errorText (reader_onerror (scenario_state example_host)) = ''Could not read file. please try again.'' \<and>
   errorHidden (reader_onerror (scenario_state example_host)) = False"
  by (simp add: reader_onerror_def setError_def scenario_state_eq)

section \<open>Derived filter options\<close>
















section \<open>Filtering on a level\<close>

lemma insert_by_mset: "insert_by cmp x ys = Inr r \<Longrightarrow> mset r = add_mset x (mset ys)"
  by (induction ys arbitrary: r) (auto split: sum.splits if_splits)

lemma sort_from_mset: "sort_from cmp acc xs = Inr r \<Longrightarrow> mset r = mset acc + mset xs"
proof (induction xs arbitrary: acc)
  case Nil
  then show ?case by simp
next
  case (Cons x xs)
  then obtain acc' where a: "insert_by cmp x acc = Inr acc'" and "sort_from cmp acc' xs = Inr r"
    by (auto split: sum.splits)
  with Cons.IH have "mset r = mset acc' + mset xs" by simp
  with insert_by_mset [OF a] show ?case by simp
qed

lemma sortCourses_mset: "sortCourses h cs sortValue = Inr ys \<Longrightarrow> mset ys = mset cs"
  by (auto simp: sortCourses_def js_sort_def dest: sort_from_mset split: if_splits)

lemma applyFiltersAndSort_filtered:
  assumes "applyFiltersAndSort h s = Inr s'" and "allCourses s \<noteq> []"
  shows "mset (filteredCourses s') =
     mset (filter (course_matches (sel_value (departmentSelect s)) (sel_value (levelSelect s))
        (sel_value (creditsSelect s)) (sel_value (instructorSelect s))) (allCourses s))"
proof -
  let ?filtered = "filter (course_matches (sel_value (departmentSelect s)) (sel_value (levelSelect s))
      (sel_value (creditsSelect s)) (sel_value (instructorSelect s))) (allCourses s)"
  from assms obtain ys where ys: "sortCourses h ?filtered (sortSelect s) = Inr ys"
    by (cases "sortCourses h ?filtered (sortSelect s)") (simp_all add: applyFiltersAndSort_def Let_def)
  with assms have "filteredCourses s' = ys"
    by (auto simp: applyFiltersAndSort_def Let_def renderCourseList_def renderCourseDetails_def
        markSelectedCourse_def split: if_splits)
  with sortCourses_mset [OF ys] show ?thesis by simp
qed

lemma string_of_int_head:
  "\<exists>c cs. string_of_int n = c # cs \<and> (c = CHR ''-'' \<or> is_digit c)"
proof (cases "n < 0")
  case True
  then show ?thesis by (simp add: string_of_int_def)
next
  case False
  obtain c cs where "string_of_nat (nat n) = c # cs"
    using string_of_nat_nonempty [of "nat n"] by (cases "string_of_nat (nat n)") auto
  with hd_string_of_nat [of "nat n"] False show ?thesis
    by (simp add: string_of_int_def)
qed

lemma number_string_not_keyword:
  "to_String (JNum n) \<noteq> ''All'' \<and> to_String (JNum n) \<noteq> ''null''"
proof -
  obtain c cs where s: "string_of_int n = c # cs" and c: "c = CHR ''-'' \<or> is_digit c"
    using string_of_int_head by blast
  have "\<not> is_digit CHR ''A''" "\<not> is_digit CHR ''n''"
    by (simp_all add: is_digit_def)
  with s c show ?thesis by auto
qed

lemma level_three_scenario:
  "map_sum id filteredCourses (on_change h LevelSel ''3'' (scenario_state h)) = Inr [CS202]"
proof -
  have n: "string_of_int 3 = ''3''"
    by code_simp
  have "filter (course_matches ''All'' ''3'' ''All'' ''All'') [CS101, CS202] = [CS202]"
    by (simp add: course_matches_def CS101_def CS202_def n)
  then show ?thesis
    by (simp add: on_change_def set_control_def scenario_state_eq applyFiltersAndSort_def Let_def
        sortCourses_def renderCourseList_def renderCourseDetails_def markSelectedCourse_def)
qed

text \<open>
  Claim C7, as the code has it. The level is compared through its string, and the string
  of null is \<^verbatim>\<open>null\<close>: a course with a null level fails the level predicate, and is absent
  from the result of every run, for every level selection other than \<^verbatim>\<open>All\<close> and other than
  the string \<^verbatim>\<open>null\<close>; the same holds for credits. The string of a number is neither of the
  two, so every numeric level option excludes the course. The selection \<^verbatim>\<open>null\<close> lets the
  course pass the level predicate as \<^verbatim>\<open>All\<close> does. On the two-course catalog the
  level selection \<^verbatim>\<open>3\<close> leaves CS202 alone.
\<close>

theorem null_level_excluded:
  "(level c = JNull \<and> levelValue \<noteq> ''All'' \<and> levelValue \<noteq> ''null'' \<longrightarrow>
      \<not> course_matches deptValue levelValue creditsValue instructorValue c \<and>
      (\<forall>s s'. sel_value (levelSelect s) = levelValue \<and>
          (allCourses s = [] \<longrightarrow> filteredCourses s = []) \<and> applyFiltersAndSort h s = Inr s' \<longrightarrow>
          c \<notin> set (filteredCourses s'))) \<and>
   (credits c = JNull \<and> creditsValue \<noteq> ''All'' \<and> creditsValue \<noteq> ''null'' \<longrightarrow>
      \<not> course_matches deptValue levelValue creditsValue instructorValue c) \<and>
   to_String (JNum n) \<noteq> ''All'' \<and> to_String (JNum n) \<noteq> ''null'' \<and>
   map_sum id filteredCourses (on_change h LevelSel ''3'' (scenario_state h)) = Inr [CS202] \<and>
   (level c = JNull \<longrightarrow>
      course_matches deptValue ''null'' creditsValue instructorValue c =
      course_matches deptValue ''All'' creditsValue instructorValue c)"
proof -
  have z: "level c = JNull \<longrightarrow>
      course_matches deptValue ''null'' creditsValue instructorValue c =
      course_matches deptValue ''All'' creditsValue instructorValue c"
    by (simp add: course_matches_def)
  have a: "\<not> course_matches d levelValue cr i c"
    if "level c = JNull" "levelValue \<noteq> ''All''" "levelValue \<noteq> ''null''" for d cr i
    using that by (auto simp: course_matches_def)
  have b: "c \<notin> set (filteredCourses s')"
    if "level c = JNull" "levelValue \<noteq> ''All''" "levelValue \<noteq> ''null''"
      "sel_value (levelSelect s) = levelValue" "allCourses s = [] \<longrightarrow> filteredCourses s = []"
      "applyFiltersAndSort h s = Inr s'" for s s'
  proof (cases "allCourses s = []")
    case True
    with that(5,6) show ?thesis
      by (auto simp: applyFiltersAndSort_empty renderCourseDetails_def renderCourseList_def)
  next
    case False
    let ?filtered = "filter (course_matches (sel_value (departmentSelect s)) levelValue
        (sel_value (creditsSelect s)) (sel_value (instructorSelect s))) (allCourses s)"
    from applyFiltersAndSort_filtered [OF that(6) False]
    have "set_mset (mset (filteredCourses s')) = set_mset (mset ?filtered)"
      unfolding that(4) by simp
    then have "set (filteredCourses s') = set ?filtered"
      by simp
    with a [OF that(1-3)] show ?thesis by simp
  qed
  have c: "\<not> course_matches deptValue levelValue creditsValue instructorValue c"
    if "credits c = JNull" "creditsValue \<noteq> ''All''" "creditsValue \<noteq> ''null''"
    using that by (auto simp: course_matches_def)
  show ?thesis
    using a b c z number_string_not_keyword [of n] level_three_scenario [of h] by blast
qed

text \<open>CS101, whose level is null, and the level selection \<^verbatim>\<open>3\<close> on the loaded catalog.\<close>

theorem null_level_excluded_witness:
  "level CS101 = JNull \<and> \<not> course_matches ''All'' ''3'' ''All'' ''All'' CS101 \<and>
   (\<exists>s'. applyFiltersAndSort example_host (set_control LevelSel ''3'' (scenario_state example_host)) = Inr s' \<and>
      CS101 \<notin> set (filteredCourses s'))"
proof -
  let ?s = "set_control LevelSel ''3'' (scenario_state example_host)"
  note k = null_level_excluded [of CS101 "''3''" "''All''" "''All''" "''All''" example_host 3]
  have l: "level CS101 = JNull" "''3'' \<noteq> ''All''" "''3'' \<noteq> ''null''"
    by (simp_all add: CS101_def)
  have v: "sel_value (levelSelect ?s) = ''3''" "allCourses ?s = [] \<longrightarrow> filteredCourses ?s = []"
    by (simp_all add: set_control_def scenario_state_eq)
  have t: "\<forall>c\<in>set (allCourses ?s). is_string (id' c) \<and> is_string (title c) \<and> is_string (semester c)"
    by (simp add: set_control_def scenario_state_eq CS101_def CS202_def)
  obtain s' where s': "applyFiltersAndSort example_host ?s = Inr s'"
    using applyFiltersAndSort_total [OF t] by blast
  from k l v s' have "CS101 \<notin> set (filteredCourses s')"
    by blast
  moreover from k l have "\<not> course_matches ''All'' ''3'' ''All'' ''All'' CS101"
    by blast
  ultimately show ?thesis using l(1) s' by blast
qed

text \<open>
  Claim C7 as stated fails for the selection \<^verbatim>\<open>null\<close>. A record with the string
  \<^verbatim>\<open>"null"\<close> as its level puts that option into the level drop-down; selecting it keeps
  CS101, whose level is null.
\<close>

theorem null_selection_counterexample:
  "level CS101 = JNull \<and> ''null'' \<noteq> ''All'' \<and>
   sel_options (levelSelect (reader_onload example_host (Some null_level_json) (initial_state ''none'')))
     = [''All'', ''null''] \<and>
   course_matches ''All'' ''null'' ''All'' ''All'' CS101 \<and>
   map_sum id filteredCourses (on_change example_host LevelSel ''null''
       (reader_onload example_host (Some null_level_json) (initial_state ''none'')))
     = Inr [CS101, CS303]"
proof -
  have p: "push_courses [] [JObj [(''id'', JStr ''CS101'')],
      JObj [(''id'', JStr ''CS303''), (''level'', JStr ''null'')]] = Inr [CS101, CS303]"
    by (simp add: Course_def js_or_def CS101_def CS303_def)
  have o: "sortedDepartments [CS101, CS303] = [JStr ''Unknown department''] \<and>
      sortedLevels example_host [CS101, CS303] = [JStr ''null''] \<and>
      sortedCredits example_host [CS101, CS303] = [] \<and>
      sortedInstructors [CS101, CS303] = [JStr ''TBA'']"
    by (simp add: sortedDepartments_def sortedLevels_def sortedCredits_def sortedInstructors_def
        departments_set_def levels_set_def credits_set_def instructors_set_def set_add_def
        js_sort_pure_def getInstructorLabel_def CS101_def CS303_def)
  have i: "id' CS101 = JStr ''CS101''" "id' CS303 = JStr ''CS303''"
    by (simp_all add: CS101_def CS303_def)
  have m: "course_matches ''All'' ''All'' ''All'' ''All'' c" for c
    by (simp add: course_matches_def)
  have l: "reader_onload example_host (Some null_level_json) (initial_state ''none'') =
     \<lparr>allCourses = [CS101, CS303], filteredCourses = [CS101, CS303], errorText = [], errorHidden = True,
      departmentSelect = \<lparr>sel_options = [''All'', ''Unknown department''], sel_value = ''All''\<rparr>,
      levelSelect = \<lparr>sel_options = [''All'', ''null''], sel_value = ''All''\<rparr>,
      creditsSelect = \<lparr>sel_options = [''All''], sel_value = ''All''\<rparr>,
      instructorSelect = \<lparr>sel_options = [''All'', ''TBA''], sel_value = ''All''\<rparr>,
      sortSelect = ''none'',
      courseList = [\<lparr>textContent = ''CS101'', selected = True\<rparr>, \<lparr>textContent = ''CS303'', selected = False\<rparr>],
      courseDetails = Some CS101, console = []\<rparr>"
    unfolding null_level_json_def
    by (simp add: reader_onload_def p populateFilterDropdowns_def o
        initial_state_def resetSelectOptions_def append_options_def applyFiltersAndSort_def
        Let_def sortCourses_def renderCourseList_def renderCourseDetails_def markSelectedCourse_def
        setError_def i m del: push_courses.simps)
  have f: "filter (course_matches ''All'' ''null'' ''All'' ''All'') [CS101, CS303] = [CS101, CS303]"
    by (simp add: course_matches_def CS101_def CS303_def)
  have c: "course_matches ''All'' ''null'' ''All'' ''All'' CS101"
    by (simp add: course_matches_def CS101_def)
  have r: "map_sum id filteredCourses (on_change example_host LevelSel ''null''
       (reader_onload example_host (Some null_level_json) (initial_state ''none''))) = Inr [CS101, CS303]"
    unfolding l using f
    by (simp add: on_change_def set_control_def applyFiltersAndSort_def Let_def
        sortCourses_def renderCourseList_def renderCourseDetails_def markSelectedCourse_def)
  show ?thesis
    using c r by (simp add: l CS101_def)
qed

end
